theory Spec2Isabelle
  imports Complex_Main "HOL-Library.Sublist" "HOL-Library.AList" "HOL-Library.Char_ord"
    "HOL-Library.List_Lexorder"
begin

section \<open>Numbers of the data frames\<close>

text \<open>
  A numeric cell of a pandas table is a float: a finite value or NaN (the "undefined" of
  the specification). Finite values are carried as exact rationals; rounding error and
  overflow to an infinity are outside this model. NaN is explicit, since the scoring and
  filtering code depends on how NaN compares, adds and converts to a truth value.
\<close>

datatype pfloat = NaN | Fin rat

fun fadd :: "pfloat \<Rightarrow> pfloat \<Rightarrow> pfloat" where
  "fadd (Fin a) (Fin b) = Fin (a + b)"
| "fadd _ _ = NaN"

fun fsub :: "pfloat \<Rightarrow> pfloat \<Rightarrow> pfloat" where
  "fsub (Fin a) (Fin b) = Fin (a - b)"
| "fsub _ _ = NaN"

fun fmul :: "pfloat \<Rightarrow> pfloat \<Rightarrow> pfloat" where
  "fmul (Fin a) (Fin b) = Fin (a * b)"
| "fmul _ _ = NaN"

text \<open>
  Division of a column by a scalar. numpy answers a zero divisor with an infinity or NaN
  and no exception; the model answers NaN there, and \<open>denom_cost_not_zero\<close> and
  \<open>denom_speed_not_zero\<close> below show that the scoring step never has a zero divisor.
\<close>

fun fdiv :: "pfloat \<Rightarrow> pfloat \<Rightarrow> pfloat" where
  "fdiv (Fin a) (Fin b) = (if b = 0 then NaN else Fin (a / b))"
| "fdiv _ _ = NaN"

text \<open>Comparisons: every ordered comparison with NaN is false, \<open>==\<close> too; \<open>!=\<close> is true.\<close>

fun feq :: "pfloat \<Rightarrow> pfloat \<Rightarrow> bool" where
  "feq (Fin a) (Fin b) = (a = b)"
| "feq _ _ = False"

definition fne :: "pfloat \<Rightarrow> pfloat \<Rightarrow> bool" where
  "fne a b = (\<not> feq a b)"

fun fle :: "pfloat \<Rightarrow> pfloat \<Rightarrow> bool" where
  "fle (Fin a) (Fin b) = (a \<le> b)"
| "fle _ _ = False"

fun flt :: "pfloat \<Rightarrow> pfloat \<Rightarrow> bool" where
  "flt (Fin a) (Fin b) = (a < b)"
| "flt _ _ = False"

definition fge :: "pfloat \<Rightarrow> pfloat \<Rightarrow> bool" where
  "fge a b = fle b a"

definition fgt :: "pfloat \<Rightarrow> pfloat \<Rightarrow> bool" where
  "fgt a b = flt b a"

text \<open>Truth value of a float (\<open>if x:\<close>, \<open>x or 0\<close>): only zero is false; NaN is true.\<close>

fun truthy :: "pfloat \<Rightarrow> bool" where
  "truthy (Fin a) = (a \<noteq> 0)"
| "truthy NaN = True"

text \<open>\<open>Series.max()\<close> and \<open>Series.min()\<close> skip NaN and answer NaN when nothing is left.\<close>

fun finite_values :: "pfloat list \<Rightarrow> rat list" where
  "finite_values [] = []"
| "finite_values (NaN # xs) = finite_values xs"
| "finite_values (Fin a # xs) = a # finite_values xs"

definition col_max :: "pfloat list \<Rightarrow> pfloat" where
  "col_max xs = (case finite_values xs of [] \<Rightarrow> NaN | v # vs \<Rightarrow> Fin (fold max vs v))"

definition col_min :: "pfloat list \<Rightarrow> pfloat" where
  "col_min xs = (case finite_values xs of [] \<Rightarrow> NaN | v # vs \<Rightarrow> Fin (fold min vs v))"

text \<open>
  \<open>DataFrame.round(2)\<close>: numpy rounds a float to the nearest multiple of 0.01, a tie to
  the even neighbour; NaN stays NaN.
\<close>

definition rint :: "rat \<Rightarrow> int" where
  "rint x =
     (let f = \<lfloor>x\<rfloor>; d = x - of_int f
      in if d < 1 / 2 then f else if 1 / 2 < d then f + 1 else if even f then f else f + 1)"

fun round2 :: "pfloat \<Rightarrow> pfloat" where
  "round2 NaN = NaN"
| "round2 (Fin a) = Fin (of_int (rint (a * 100)) / 100)"

section \<open>Tables\<close>

text \<open>
  A cost component as \<open>get_city_data\<close> delivers it: a float, or \<open>None\<close> where the page had
  no such price. pandas keeps \<open>None\<close> in a column that holds nothing else and turns it
  into NaN in a column that also holds floats.
\<close>

datatype cell = PyNone | Num pfloat

text \<open>
  One row type serves the cost table and the combined table built from it: the combined
  table is the cost table with columns added. \<open>columns\<close> lists the columns a table has;
  a row's field for a column the table lacks is never read. A text cell is \<open>None\<close> when
  pandas holds NaN there.
\<close>

record row =
  city :: "string option"
  rent_1br_city_center_usd :: cell
  utilities_basic_usd :: cell
  internet_60mbps_usd :: cell
  transport_monthly_pass_usd :: cell
  food_estimate_usd :: cell
  source :: "string option"
  monthly_cost :: pfloat
  country :: "string option"
  visa_free :: bool
  mobile_mbps :: pfloat
  fixed_mbps :: pfloat
  avg_internet_mbps :: pfloat
  region :: "string option"
  visa_score :: pfloat
  cost_score :: pfloat
  speed_score :: pfloat
  nomad_score :: pfloat

record dataframe =
  columns :: "string list"
  rows :: "row list"

definition has_col :: "dataframe \<Rightarrow> string \<Rightarrow> bool" where
  "has_col df c = (c \<in> set (columns df))"

text \<open>\<open>df[c] = values\<close>: a new column goes last, an existing one keeps its place.\<close>

definition add_col :: "string \<Rightarrow> string list \<Rightarrow> string list" where
  "add_col c cs = (if c \<in> set cs then cs else cs @ [c])"

text \<open>\<open>df.empty\<close>: no rows or no columns.\<close>

definition empty_df :: "dataframe \<Rightarrow> bool" where
  "empty_df df = (rows df = [] \<or> columns df = [])"

text \<open>The speed tables of \<open>fetch_speed_data\<close>: a country column and the \<open>Mbps\<close> column.\<close>

record speed_row =
  Country :: "string option"
  Mbps :: pfloat

datatype error =
    ValueError
  | KeyError
  | AttributeError
  | NoCachedDataError
  | CostOfLivingRateLimitError
  | CostOfLivingFetchError
  | SpeedFetchError

text \<open>
  The attributes of a \<open>DigitalNomadRecommender\<close>. (\<open>visa_data\<close>, the flat table that
  \<open>load_visa_data\<close> also stores, is read by no method and is left out.)
\<close>

record recommender =
  visa_dict :: "(string \<times> string list) list option"
  cost_df :: "dataframe option"
  speed_mobile_df :: "speed_row list option"
  speed_fixed_df :: "speed_row list option"
  combined_data :: "dataframe option"
  cache_tag :: "string option"

section \<open>Scoring\<close>

text \<open>\<open>100 if bool(x) else 50\<close>\<close>

definition visa_score_of :: "bool \<Rightarrow> pfloat" where
  "visa_score_of x = (if x then Fin 100 else Fin 50)"

text \<open>\<open>denom_cost = (max_cost - min_cost) if max_cost != min_cost else 1.0\<close>\<close>

definition denom_cost :: "pfloat \<Rightarrow> pfloat \<Rightarrow> pfloat" where
  "denom_cost max_cost min_cost =
     (if fne max_cost min_cost then fsub max_cost min_cost else Fin 1)"

text \<open>
  \<open>x in (0, None, float('nan'))\<close>: true when \<open>x\<close> is identical or equal to a member. The
  maximum of a column is a float of its own, identical to no member of the tuple, so what
  is left is \<open>==\<close>: against \<open>0\<close>, against \<open>None\<close> (never equal to a float) and against NaN.
\<close>

definition py_in :: "pfloat \<Rightarrow> pfloat option list \<Rightarrow> bool" where
  "py_in x ys = list_ex (\<lambda>y. case y of None \<Rightarrow> False | Some v \<Rightarrow> feq x v) ys"

text \<open>\<open>denom_speed = max_speed if max_speed not in (0, None, float('nan')) else 1.0\<close>\<close>

definition denom_speed :: "pfloat \<Rightarrow> pfloat" where
  "denom_speed max_speed =
     (if \<not> py_in max_speed [Some (Fin 0), None, Some NaN] then max_speed else Fin 1)"

definition cost_score_of :: "pfloat \<Rightarrow> pfloat \<Rightarrow> pfloat \<Rightarrow> pfloat" where
  "cost_score_of max_cost dc c = fmul (fdiv (fsub max_cost c) dc) (Fin 100)"

definition speed_score_of :: "pfloat \<Rightarrow> pfloat \<Rightarrow> pfloat" where
  "speed_score_of ds s = fmul (fdiv s ds) (Fin 100)"

definition nomad_score_of :: "pfloat \<Rightarrow> pfloat \<Rightarrow> pfloat \<Rightarrow> row \<Rightarrow> pfloat" where
  "nomad_score_of visa_weight cost_weight speed_weight r =
     fadd (fadd (fmul (visa_score r) visa_weight) (fmul (cost_score r) cost_weight))
          (fmul (speed_score r) speed_weight)"

text \<open>
  \<open>calculate_nomad_score\<close>, statement by statement: each \<open>df[c]\<close> that reads a column the
  table lacks raises \<open>KeyError\<close>; each assignment writes one column of every row.
\<close>

definition calculate_nomad_score ::
  "recommender \<Rightarrow> pfloat \<Rightarrow> pfloat \<Rightarrow> pfloat \<Rightarrow> error + recommender" where
  "calculate_nomad_score self visa_weight cost_weight speed_weight =
     (case combined_data self of
        None \<Rightarrow> Inl ValueError
      | Some df \<Rightarrow>
          if \<not> has_col df ''visa_free'' then Inl KeyError
          else
            let df1 = df\<lparr>columns := add_col ''visa_score'' (columns df),
                         rows := map (\<lambda>r. r\<lparr>visa_score := visa_score_of (visa_free r)\<rparr>) (rows df)\<rparr>
            in
            if \<not> has_col df1 ''monthly_cost'' then Inl KeyError
            else
              let max_cost = col_max (map monthly_cost (rows df1));
                  min_cost = col_min (map monthly_cost (rows df1));
                  dc = denom_cost max_cost min_cost;
                  df2 = df1\<lparr>columns := add_col ''cost_score'' (columns df1),
                            rows := map (\<lambda>r. r\<lparr>cost_score := cost_score_of max_cost dc (monthly_cost r)\<rparr>)
                                        (rows df1)\<rparr>;
                  max_speed = (if has_col df2 ''avg_internet_mbps''
                               then col_max (map avg_internet_mbps (rows df2)) else Fin 0);
                  ds = denom_speed max_speed
              in
              if \<not> has_col df2 ''avg_internet_mbps'' then Inl KeyError
              else
                let df3 = df2\<lparr>columns := add_col ''speed_score'' (columns df2),
                              rows := map (\<lambda>r. r\<lparr>speed_score := speed_score_of ds (avg_internet_mbps r)\<rparr>)
                                          (rows df2)\<rparr>;
                    df4 = df3\<lparr>columns := add_col ''nomad_score'' (columns df3),
                              rows := map (\<lambda>r. r\<lparr>nomad_score :=
                                             nomad_score_of visa_weight cost_weight speed_weight r\<rparr>)
                                          (rows df3)\<rparr>
                in Inr (self\<lparr>combined_data := Some df4\<rparr>))"


section \<open>Text\<close>

text \<open>
  Python strings are read as ASCII text: \<open>lower\<close> and \<open>casefold\<close> change the letters A to Z
  only, \<open>strip\<close> removes the ASCII white space, \<open>isdigit\<close> accepts 0 to 9.
\<close>

definition lower_char :: "char \<Rightarrow> char" where
  "lower_char c =
     (let n = (of_char c :: nat) in if 65 \<le> n \<and> n \<le> 90 then char_of (n + 32) else c)"

definition str_lower :: "string \<Rightarrow> string" where
  "str_lower s = map lower_char s"

definition str_casefold :: "string \<Rightarrow> string" where
  "str_casefold s = map lower_char s"

definition is_space :: "char \<Rightarrow> bool" where
  "is_space c = (let n = (of_char c :: nat) in (9 \<le> n \<and> n \<le> 13) \<or> (28 \<le> n \<and> n \<le> 32))"

definition str_strip :: "string \<Rightarrow> string" where
  "str_strip s = rev (dropWhile is_space (rev (dropWhile is_space s)))"

definition is_digit :: "char \<Rightarrow> bool" where
  "is_digit c = (let n = (of_char c :: nat) in 48 \<le> n \<and> n \<le> 57)"

text \<open>\<open>s.isdigit()\<close>: at least one character, and all of them digits.\<close>

definition str_isdigit :: "string \<Rightarrow> bool" where
  "str_isdigit s = (s \<noteq> [] \<and> list_all is_digit s)"

text \<open>\<open>Series.astype(str)\<close> writes a missing text cell as \<open>nan\<close>.\<close>

definition astype_str :: "string option \<Rightarrow> string" where
  "astype_str v = (case v of None \<Rightarrow> ''nan'' | Some s \<Rightarrow> s)"

text \<open>\<open>sep.join(xs)\<close>\<close>

fun py_join :: "string \<Rightarrow> string list \<Rightarrow> string" where
  "py_join sep [] = []"
| "py_join sep [x] = x"
| "py_join sep (x # y # ys) = x @ sep @ py_join sep (y # ys)"

section \<open>Loading the sources\<close>

text \<open>\<open>x or 0\<close> on a cell: \<open>None\<close> and zero give 0, every other float is kept, NaN too.\<close>

fun or0 :: "cell \<Rightarrow> pfloat" where
  "or0 PyNone = Fin 0"
| "or0 (Num x) = (if truthy x then x else Fin 0)"

text \<open>\<open>row.get(c, 0) or 0\<close>: the default 0 when the table has no column \<open>c\<close>.\<close>

definition row_get_or0 :: "dataframe \<Rightarrow> string \<Rightarrow> (row \<Rightarrow> cell) \<Rightarrow> row \<Rightarrow> pfloat" where
  "row_get_or0 df c field r = (if has_col df c then or0 (field r) else Fin 0)"

text \<open>\<open>sum(xs)\<close> starts from 0 and adds from the left.\<close>

definition py_sum :: "pfloat list \<Rightarrow> pfloat" where
  "py_sum xs = foldl fadd (Fin 0) xs"

text \<open>
  \<open>load_cost_data\<close>. (A cost table has a row per city; \<open>fetch_cost_of_living\<close> never
  delivers a table without rows.)
\<close>

definition load_cost_data :: "recommender \<Rightarrow> dataframe \<Rightarrow> recommender" where
  "load_cost_data self df =
     self\<lparr>cost_df := Some (df\<lparr>
       columns := add_col ''monthly_cost'' (columns df),
       rows := map (\<lambda>r. r\<lparr>monthly_cost := py_sum
                  [row_get_or0 df ''rent_1br_city_center_usd'' rent_1br_city_center_usd r,
                   row_get_or0 df ''utilities_basic_usd'' utilities_basic_usd r,
                   row_get_or0 df ''internet_60mbps_usd'' internet_60mbps_usd r,
                   row_get_or0 df ''transport_monthly_pass_usd'' transport_monthly_pass_usd r,
                   row_get_or0 df ''food_estimate_usd'' food_estimate_usd r]\<rparr>) (rows df)\<rparr>)\<rparr>"

definition load_visa_data :: "recommender \<Rightarrow> (string \<times> string list) list \<Rightarrow> recommender" where
  "load_visa_data self d = self\<lparr>visa_dict := Some d\<rparr>"

text \<open>
  \<open>load_speed_data\<close> keeps copies of the two tables, their \<open>Mbps\<close> column renamed to
  \<open>mobile_mbps\<close> and \<open>fixed_mbps\<close>; the values are untouched.
\<close>

definition load_speed_data :: "recommender \<Rightarrow> speed_row list \<Rightarrow> speed_row list \<Rightarrow> recommender" where
  "load_speed_data self mobile_df fixed_df =
     self\<lparr>speed_mobile_df := Some mobile_df, speed_fixed_df := Some fixed_df\<rparr>"

section \<open>Region and home country\<close>

definition REGION_BY_COUNTRY :: "(string \<times> string) list" where
  "REGION_BY_COUNTRY =
     [(''Switzerland'', ''Europe''), (''France'', ''Europe''), (''Germany'', ''Europe''),
      (''Australia'', ''Oceania''), (''Netherlands'', ''Europe''), (''South Korea'', ''Asia''),
      (''United Arab Emirates'', ''Asia''), (''Canada'', ''Americas''), (''Japan'', ''Asia''),
      (''United Kingdom'', ''Europe''), (''United States'', ''Americas''), (''Hong Kong'', ''Asia''),
      (''Spain'', ''Europe''), (''South Africa'', ''Africa''), (''Singapore'', ''Asia''),
      (''Czech Republic'', ''Europe''), (''Czechia'', ''Europe''), (''Portugal'', ''Europe''),
      (''Thailand'', ''Asia''), (''Mexico'', ''Americas'')]"

text \<open>
  The table with the aliases of the United States added by \<open>setdefault\<close>: an entry already
  there wins, as the first match of \<open>map_of\<close> does.
\<close>

definition region_map :: "(string \<times> string) list" where
  "region_map =
     REGION_BY_COUNTRY @
     map (\<lambda>us_alias. (us_alias, ''Americas''))
       [''United States'', ''United States of America'', ''USA'', ''U.S.'', ''US'']"

definition canon :: "string \<Rightarrow> string" where
  "canon s =
     (let t = str_casefold (str_strip s)
      in if sublist ''amer'' t then ''Americas''
         else if sublist ''euro'' t then ''Europe''
         else if sublist ''asia'' t then ''Asia''
         else if sublist ''afri'' t then ''Africa''
         else if sublist ''ocea'' t \<or> sublist ''austral'' t then ''Oceania''
         else if s \<noteq> [] then s else ''Other'')"

definition region_of_country :: "row \<Rightarrow> string option" where
  "region_of_country r = (case country r of None \<Rightarrow> None | Some c \<Rightarrow> map_of region_map c)"

definition needs_region :: "row \<Rightarrow> bool" where
  "needs_region r = (region r = None \<or> str_strip (astype_str (region r)) = [])"

definition ensure_region_column :: "dataframe \<Rightarrow> dataframe" where
  "ensure_region_column df =
     (if \<not> has_col df ''country'' then df
      else
        let df1 = (if \<not> has_col df ''region''
                   then df\<lparr>columns := add_col ''region'' (columns df),
                           rows := map (\<lambda>r. r\<lparr>region := region_of_country r\<rparr>) (rows df)\<rparr>
                   else df\<lparr>rows := map (\<lambda>r. if needs_region r then r\<lparr>region := region_of_country r\<rparr>
                                             else r) (rows df)\<rparr>);
            df2 = df1\<lparr>rows := map (\<lambda>r. r\<lparr>region :=
                            Some (str_strip (case region r of None \<Rightarrow> ''Other'' | Some s \<Rightarrow> s))\<rparr>)
                          (rows df1)\<rparr>
        in df2\<lparr>rows := map (\<lambda>r. r\<lparr>region := map_option canon (region r)\<rparr>) (rows df2)\<rparr>)"

definition home_mask :: "string \<Rightarrow> row \<Rightarrow> bool" where
  "home_mask home_country r =
     (str_strip (astype_str (country r)) \<in>
        set [home_country, ''United States of America'', ''USA'', ''US''])"

definition apply_home_country_visa_override :: "dataframe \<Rightarrow> string \<Rightarrow> dataframe" where
  "apply_home_country_visa_override df home_country =
     (if \<not> has_col df ''country'' \<or> \<not> has_col df ''visa_free'' then df
      else df\<lparr>rows := map (\<lambda>r. if home_mask home_country r then r\<lparr>visa_free := True\<rparr> else r)
                        (rows df)\<rparr>)"

section \<open>Merging\<close>

definition city_to_country :: "(string \<times> string) list" where
  "city_to_country =
     [(''Zurich'', ''Switzerland''), (''Paris'', ''France''), (''Berlin'', ''Germany''),
      (''Sydney'', ''Australia''), (''Amsterdam'', ''Netherlands''), (''Seoul'', ''South Korea''),
      (''Dubai'', ''United Arab Emirates''), (''Toronto'', ''Canada''), (''Tokyo'', ''Japan''),
      (''London'', ''United Kingdom''), (''New York'', ''United States''),
      (''Hong Kong'', ''Hong Kong''), (''Barcelona'', ''Spain''),
      (''Johannesburg'', ''South Africa''), (''Singapore'', ''Singapore''),
      (''Prague'', ''Czech Republic''), (''Lisbon'', ''Portugal''),
      (''Bangkok'', ''Thailand''), (''Mexico City'', ''Mexico'')]"

text \<open>The countries of every category whose label contains \<open>visa-free\<close>.\<close>

definition visa_free_countries :: "(string \<times> string list) list option \<Rightarrow> string list" where
  "visa_free_countries vd =
     (case vd of
        None \<Rightarrow> []
      | Some d \<Rightarrow> concat (map snd (filter (\<lambda>kc. sublist ''visa-free'' (str_lower (fst kc))) d)))"

text \<open>
  \<open>base.merge(speed, left_on='country', right_on='Country', how='left')\<close>: the rows of
  \<open>base\<close> in their order, each once per speed row of its country, in the order of the
  speed table, and once with NaN when the country has none. pandas matches a missing key
  with a missing key.
\<close>

definition speed_matches :: "speed_row list \<Rightarrow> string option \<Rightarrow> pfloat list" where
  "speed_matches sp k = map Mbps (filter (\<lambda>s. Country s = k) sp)"

definition left_merge :: "(row \<Rightarrow> pfloat \<Rightarrow> row) \<Rightarrow> speed_row list \<Rightarrow> row list \<Rightarrow> row list" where
  "left_merge put sp base =
     concat (map (\<lambda>r. case speed_matches sp (country r) of
                         [] \<Rightarrow> [put r NaN]
                       | m # ms \<Rightarrow> map (put r) (m # ms)) base)"

text \<open>
  One of the two speed merges, skipped when the speed table is \<open>None\<close> or empty. When
  \<open>base\<close> already has a column \<open>Country\<close>, the merge renames both and \<open>drop('Country')\<close>
  raises \<open>KeyError\<close>; when it already has the speed column, the merge renames both and the
  later \<open>base[['mobile_mbps', 'fixed_mbps']]\<close> raises \<open>KeyError\<close>.
\<close>

definition merge_speed ::
  "string \<Rightarrow> (row \<Rightarrow> pfloat \<Rightarrow> row) \<Rightarrow> speed_row list option \<Rightarrow> dataframe \<Rightarrow> error + dataframe" where
  "merge_speed c put speed_df base =
     (case speed_df of
        None \<Rightarrow> Inr base
      | Some sp \<Rightarrow>
          if sp = [] then Inr base
          else if has_col base ''Country'' \<or> has_col base c then Inl KeyError
          else Inr (base\<lparr>columns := columns base @ [c], rows := left_merge put sp (rows base)\<rparr>))"

text \<open>\<open>mean(axis=1)\<close>: the mean of the values that are not NaN; NaN when there is none.\<close>

definition row_mean :: "pfloat list \<Rightarrow> pfloat" where
  "row_mean xs =
     (case finite_values xs of
        [] \<Rightarrow> NaN
      | v # vs \<Rightarrow> Fin (sum_list (v # vs) / of_nat (length (v # vs))))"

text \<open>\<open>base['country'] = base['city'].map(city_to_country)\<close>\<close>

definition with_country :: "dataframe \<Rightarrow> dataframe" where
  "with_country base =
     base\<lparr>columns := add_col ''country'' (columns base),
          rows := map (\<lambda>r. r\<lparr>country := (case city r of None \<Rightarrow> None
                                           | Some c \<Rightarrow> map_of city_to_country c)\<rparr>) (rows base)\<rparr>"

text \<open>\<open>base['visa_free'] = base['country'].isin(visa_free_countries)\<close>\<close>

definition with_visa_free :: "string list \<Rightarrow> dataframe \<Rightarrow> dataframe" where
  "with_visa_free vfc base =
     base\<lparr>columns := add_col ''visa_free'' (columns base),
          rows := map (\<lambda>r. r\<lparr>visa_free := (case country r of None \<Rightarrow> False
                                             | Some c \<Rightarrow> c \<in> set vfc)\<rparr>) (rows base)\<rparr>"

text \<open>\<open>base['avg_internet_mbps'] = base[['mobile_mbps', 'fixed_mbps']].mean(axis=1)\<close>\<close>

definition with_avg_internet_mbps :: "dataframe \<Rightarrow> dataframe" where
  "with_avg_internet_mbps base =
     base\<lparr>columns := add_col ''avg_internet_mbps'' (columns base),
          rows := map (\<lambda>r. r\<lparr>avg_internet_mbps := row_mean [mobile_mbps r, fixed_mbps r]\<rparr>)
                    (rows base)\<rparr>"

definition merge_datasets :: "recommender \<Rightarrow> error + recommender" where
  "merge_datasets self =
     (case cost_df self of
        None \<Rightarrow> Inl AttributeError
      | Some base0 \<Rightarrow>
          if \<not> has_col base0 ''city'' then Inl KeyError
          else
            let base1 = with_country base0;
                base2 = with_visa_free (visa_free_countries (visa_dict self)) base1
            in
            (case merge_speed ''mobile_mbps'' (\<lambda>r v. r\<lparr>mobile_mbps := v\<rparr>) (speed_mobile_df self) base2 of
              Inl e \<Rightarrow> Inl e
            | Inr base3 \<Rightarrow>
                (case merge_speed ''fixed_mbps'' (\<lambda>r v. r\<lparr>fixed_mbps := v\<rparr>) (speed_fixed_df self) base3 of
                   Inl e \<Rightarrow> Inl e
                 | Inr base4 \<Rightarrow>
                     if \<not> (has_col base4 ''mobile_mbps'' \<and> has_col base4 ''fixed_mbps'') then Inl KeyError
                     else
                       let base5 = with_avg_internet_mbps base4;
                           base6 = ensure_region_column base5;
                           base7 = apply_home_country_visa_override base6 ''United States''
                       in Inr (self\<lparr>combined_data := Some base7\<rparr>))))"

section \<open>Recommendations\<close>

text \<open>
  \<open>region and region.strip() and region.strip().lower() != "global"\<close>, and the
  \<open>target = region.strip().casefold()\<close> of the region filter when that holds. (The
  parameter \<open>region\<close> is written \<open>region_arg\<close>, apart from the column of that name.)
\<close>

definition region_target :: "string option \<Rightarrow> string option" where
  "region_target region_arg =
     (case region_arg of
        None \<Rightarrow> None
      | Some s \<Rightarrow>
          if s \<noteq> [] \<and> str_strip s \<noteq> [] \<and> str_lower (str_strip s) \<noteq> ''global''
          then Some (str_casefold (str_strip s)) else None)"

text \<open>
  \<open>nlargest(n, 'nomad_score')\<close>: the \<open>n\<close> rows of greatest score, greatest first, equal
  scores in the order of the table; rows whose score is NaN come after all others;
  nothing when \<open>n \<le> 0\<close>.
\<close>

definition neg_score :: "row \<Rightarrow> rat" where
  "neg_score r = (case nomad_score r of NaN \<Rightarrow> 0 | Fin a \<Rightarrow> - a)"

definition nlargest :: "int \<Rightarrow> row list \<Rightarrow> row list" where
  "nlargest n rs =
     take (nat n) (sort_key neg_score (filter (\<lambda>r. nomad_score r \<noteq> NaN) rs)
                   @ filter (\<lambda>r. nomad_score r = NaN) rs)"

fun round_cell :: "cell \<Rightarrow> cell" where
  "round_cell PyNone = PyNone"
| "round_cell (Num x) = Num (round2 x)"

text \<open>\<open>round(2)\<close> on the selected columns: it changes the numeric ones.\<close>

definition round_row :: "row \<Rightarrow> row" where
  "round_row r =
     r\<lparr>nomad_score := round2 (nomad_score r),
       monthly_cost := round2 (monthly_cost r),
       avg_internet_mbps := round2 (avg_internet_mbps r),
       rent_1br_city_center_usd := round_cell (rent_1br_city_center_usd r),
       internet_60mbps_usd := round_cell (internet_60mbps_usd r),
       transport_monthly_pass_usd := round_cell (transport_monthly_pass_usd r)\<rparr>"

definition result_columns :: "string list" where
  "result_columns =
     [''city'', ''country'', ''nomad_score'', ''monthly_cost'', ''avg_internet_mbps'', ''visa_free'',
      ''rent_1br_city_center_usd'', ''internet_60mbps_usd'', ''transport_monthly_pass_usd'']"

definition get_recommendations ::
  "recommender \<Rightarrow> pfloat \<Rightarrow> pfloat \<Rightarrow> bool \<Rightarrow> int \<Rightarrow> string option \<Rightarrow> error + dataframe" where
  "get_recommendations self max_budget min_speed visa_free_only top_n region_arg =
     (case combined_data self of
        None \<Rightarrow> Inl ValueError
      | Some df \<Rightarrow>
          if \<not> has_col df ''nomad_score'' then Inl ValueError
          else if \<not> has_col df ''monthly_cost'' then Inl KeyError
          else
            let filtered1 = filter (\<lambda>r. fle (monthly_cost r) max_budget) (rows df);
                filtered2 = (case region_target region_arg of
                               None \<Rightarrow> filtered1
                             | Some target \<Rightarrow>
                                 if has_col df ''region''
                                 then filter (\<lambda>r. str_casefold (astype_str (region r)) = target)
                                        filtered1
                                 else filtered1)
            in
            if truthy min_speed \<and> \<not> has_col df ''avg_internet_mbps'' then Inl KeyError
            else
              let filtered3 = (if truthy min_speed
                               then filter (\<lambda>r. fge (avg_internet_mbps r) min_speed) filtered2
                               else filtered2)
              in
              if visa_free_only \<and> \<not> has_col df ''visa_free'' then Inl KeyError
              else
                let filtered4 = (if visa_free_only then filter (\<lambda>r. visa_free r = True) filtered3
                                 else filtered3);
                    recommendations = nlargest top_n filtered4
                in
                if \<not> list_all (has_col df) result_columns then Inl KeyError
                else Inr \<lparr>columns = result_columns, rows = map round_row recommendations\<rparr>)"


section \<open>The per-day cache\<close>

text \<open>
  What the engine sees of the world: the cache-only switch, the clock's day tag, the
  files of the working directory and the three source adapters. A file is its name and
  what \<open>read_csv\<close> (with the coercion of \<open>visa_free\<close> to \<open>bool\<close>) makes of it, \<open>None\<close> when
  reading raises; the order of \<open>files\<close> is the order in which \<open>glob\<close> lists them. The
  adapters are given by what they answer. \<open>fetched\<close> records every call to an adapter.
\<close>

datatype fetch = Get_visa_data | Fetch_cost_of_living | Fetch_speed_data

record env =
  CACHE_ONLY_MODE :: bool
  today_tag :: string
  files :: "(string \<times> dataframe option) list"
  visa_source :: "(string \<times> string list) list"
  cost_source :: "string list option \<Rightarrow> dataframe option"
  speed_source :: "error + (speed_row list option \<times> speed_row list option)"
  fetched :: "fetch list"

definition combined_csv_path :: "env \<Rightarrow> string" where
  "combined_csv_path e = ''combined_default_'' @ today_tag e @ ''.csv''"

text \<open>\<open>glob("combined_*_*.csv")\<close>: an underscore between the prefix and the extension.\<close>

definition glob_combined :: "string \<Rightarrow> bool" where
  "glob_combined name =
     (prefix ''combined_'' name \<and> suffix ''.csv'' name \<and> 13 \<le> length name
      \<and> CHR ''_'' \<in> set (take (length name - 13) (drop 9 name)))"

text \<open>\<open>core.rsplit("_", 1)[-1]\<close>: what follows the last underscore.\<close>

definition after_last_underscore :: "string \<Rightarrow> string" where
  "after_last_underscore core = rev (takeWhile (\<lambda>c. c \<noteq> CHR ''_'') (rev core))"

definition extract_tag_from_filename :: "string \<Rightarrow> string option" where
  "extract_tag_from_filename name =
     (if \<not> prefix ''combined_'' name \<or> \<not> suffix ''.csv'' name then None
      else
        let core = take (length name - 4) name;
            tag = after_last_underscore core
        in if str_isdigit tag \<and> length tag = 8 then Some tag else None)"

text \<open>Deleting the snapshots of other days; every deletion is taken to succeed.\<close>

definition cleanup_old_caches :: "string \<Rightarrow> env \<Rightarrow> env" where
  "cleanup_old_caches preserve_tag e =
     e\<lparr>files := filter (\<lambda>f. \<not> (glob_combined (fst f) \<and>
                               (case extract_tag_from_filename (fst f) of
                                  None \<Rightarrow> False
                                | Some tag \<Rightarrow> tag \<noteq> preserve_tag)))
                      (files e)\<rparr>"

definition EXPECTED_CACHE_COLS :: "string list" where
  "EXPECTED_CACHE_COLS =
     [''city'', ''country'', ''visa_free'', ''monthly_cost'', ''avg_internet_mbps'', ''nomad_score'']"

definition df_looks_valid :: "dataframe option \<Rightarrow> bool" where
  "df_looks_valid d =
     (case d of
        None \<Rightarrow> False
      | Some df \<Rightarrow>
          if empty_df df then False
          else if \<not> list_all (has_col df) EXPECTED_CACHE_COLS then False
          else if list_all (\<lambda>r. city r = None) (rows df) \<or> list_all (\<lambda>r. country r = None) (rows df)
          then False
          else True)"

definition try_read_today :: "env \<Rightarrow> dataframe option" where
  "try_read_today e =
     (case map_of (files e) (combined_csv_path e) of
        None \<Rightarrow> None
      | Some content \<Rightarrow>
          (case content of
             None \<Rightarrow> None
           | Some df \<Rightarrow> if df_looks_valid (Some df) then Some df else None))"

text \<open>
  Writing today's snapshot (taken to succeed, and to be read back as written), with the
  clean-up before and after it.
\<close>

definition try_write_today :: "dataframe \<Rightarrow> env \<Rightarrow> env" where
  "try_write_today df e =
     (let tag = today_tag e;
          e1 = cleanup_old_caches tag e;
          e2 = e1\<lparr>files := AList.update (combined_csv_path e1) (Some df) (files e1)\<rparr>
      in cleanup_old_caches tag e2)"

text \<open>
  \<open>candidates.sort(key=tag, reverse=True)\<close> and its first element: the sort is stable, so
  this is the first file, in the order of \<open>glob\<close>, whose tag no other tag exceeds.
\<close>

fun newest :: "(string \<times> string) list \<Rightarrow> (string \<times> string) option \<Rightarrow> (string \<times> string) option" where
  "newest [] best = best"
| "newest (c # cs) None = newest cs (Some c)"
| "newest (c # cs) (Some b) = newest cs (if fst b < fst c then Some c else Some b)"

definition find_latest_combined_cache :: "env \<Rightarrow> string option" where
  "find_latest_combined_cache e =
     (let candidates =
            concat (map (\<lambda>f. if glob_combined (fst f)
                              then (case extract_tag_from_filename (fst f) of
                                      None \<Rightarrow> []
                                    | Some tag \<Rightarrow> [(tag, fst f)])
                              else []) (files e))
      in map_option snd (newest candidates None))"

definition try_read_latest_any_day :: "env \<Rightarrow> dataframe option \<times> string option" where
  "try_read_latest_any_day e =
     (case find_latest_combined_cache e of
        None \<Rightarrow> (None, None)
      | Some fp \<Rightarrow>
          (case map_of (files e) fp of
             None \<Rightarrow> (None, None)
           | Some content \<Rightarrow>
               (case content of
                  None \<Rightarrow> (None, None)
                | Some df \<Rightarrow>
                    if df_looks_valid (Some df) then (Some df, extract_tag_from_filename fp)
                    else (None, None))))"

section \<open>The orchestrator\<close>

text \<open>\<open>self.calculate_nomad_score()\<close>, with the default weights 0.25, 0.40 and 0.35.\<close>

definition calculate_nomad_score_default :: "recommender \<Rightarrow> error + recommender" where
  "calculate_nomad_score_default self =
     calculate_nomad_score self (Fin (25 / 100)) (Fin (40 / 100)) (Fin (35 / 100))"

text \<open>
  Adopting a snapshot read from disk, as both cache branches of \<open>ensure_daily_dataset\<close>
  do: region and home-country override again, scores only when the column is missing,
  then the tag. The result is the exception raised, if any, and the instance as the
  call leaves it.
\<close>

definition adopt_snapshot :: "recommender \<Rightarrow> dataframe \<Rightarrow> string option \<Rightarrow> error option \<times> recommender" where
  "adopt_snapshot self cached tag =
     (let cached1 = ensure_region_column cached;
          cached2 = apply_home_country_visa_override cached1 ''United States'';
          self1 = self\<lparr>combined_data := Some cached2\<rparr>
      in if \<not> has_col cached2 ''nomad_score''
         then (case calculate_nomad_score_default self1 of
                 Inl err \<Rightarrow> (Some err, self1)
               | Inr self2 \<Rightarrow> (None, self2\<lparr>cache_tag := tag\<rparr>))
         else (None, self1\<lparr>cache_tag := tag\<rparr>))"

text \<open>The check of the \<open>source\<close> column of a fetched cost table.\<close>

definition cost_source_error :: "dataframe option \<Rightarrow> error option" where
  "cost_source_error cost =
     (case cost of
        None \<Rightarrow> None
      | Some df \<Rightarrow>
          if has_col df ''source''
          then (let sources = concat (map (\<lambda>r. case source r of None \<Rightarrow> [] | Some s \<Rightarrow> [s]) (rows df));
                    joined = py_join '' | '' sources
                in if sublist ''HTTP 429'' joined then Some CostOfLivingRateLimitError
                   else if sublist ''ERROR: HTTP'' joined then Some CostOfLivingFetchError
                   else None)
          else None)"

text \<open>
  \<open>ensure_daily_dataset\<close>. The result is the exception raised (\<open>None\<close> for a normal
  return, whose value is \<open>combined_data\<close>), the instance and the world afterwards.
\<close>

definition ensure_daily_dataset ::
  "env \<Rightarrow> recommender \<Rightarrow> string list option \<Rightarrow> error option \<times> recommender \<times> env" where
  "ensure_daily_dataset e self cities =
     (case try_read_today e of
        Some cached \<Rightarrow>
          (case adopt_snapshot self cached (Some (today_tag e)) of (res, self') \<Rightarrow> (res, self', e))
      | None \<Rightarrow>
          if CACHE_ONLY_MODE e then
            (case try_read_latest_any_day e of
               (None, tag) \<Rightarrow> (Some NoCachedDataError, self, e)
             | (Some latest, tag) \<Rightarrow>
                 (case adopt_snapshot self latest tag of (res, self') \<Rightarrow> (res, self', e)))
          else
            let e1 = e\<lparr>fetched := fetched e @ [Get_visa_data]\<rparr>;
                visa = visa_source e1;
                e2 = e1\<lparr>fetched := fetched e1 @ [Fetch_cost_of_living]\<rparr>;
                cost = cost_source e2 cities
            in
            (case cost_source_error cost of
               Some err \<Rightarrow> (Some err, self, e2)
             | None \<Rightarrow>
                 (case cost of
                    None \<Rightarrow> (Some CostOfLivingFetchError, self, e2)
                  | Some cost_table \<Rightarrow>
                      let e3 = e2\<lparr>fetched := fetched e2 @ [Fetch_speed_data]\<rparr>
                      in
                      (case speed_source e3 of
                         Inl err \<Rightarrow> (Some err, self, e3)
                       | Inr (mobile_country, fixed_country) \<Rightarrow>
                           let mobile = (case mobile_country of None \<Rightarrow> [] | Some m \<Rightarrow> m);
                               fixed = (case fixed_country of None \<Rightarrow> [] | Some f \<Rightarrow> f);
                               self1 = load_visa_data self visa;
                               self2 = load_cost_data self1 cost_table;
                               self3 = load_speed_data self2 mobile fixed
                           in
                           (case merge_datasets self3 of
                              Inl err \<Rightarrow> (Some err, self3, e3)
                            | Inr self4 \<Rightarrow>
                                (case calculate_nomad_score_default self4 of
                                   Inl err \<Rightarrow> (Some err, self4, e3)
                                 | Inr self5 \<Rightarrow>
                                     let e4 = (case combined_data self5 of
                                                 None \<Rightarrow> e3
                                               | Some df \<Rightarrow> if \<not> empty_df df
                                                            then try_write_today df e3 else e3)
                                     in (None, self5\<lparr>cache_tag := Some (today_tag e4)\<rparr>, e4)))))))"


section \<open>Auxiliary definitions for the proofs\<close>

text \<open>What \<open>calculate_nomad_score\<close> makes of one row and of the table, in closed form.\<close>

definition score_row ::
  "pfloat \<Rightarrow> pfloat \<Rightarrow> pfloat \<Rightarrow> pfloat \<Rightarrow> pfloat \<Rightarrow> pfloat \<Rightarrow> row \<Rightarrow> row" where
  "score_row max_cost dc ds wv wc ws r =
     (let r1 = r\<lparr>visa_score := visa_score_of (visa_free r)\<rparr>;
          r2 = r1\<lparr>cost_score := cost_score_of max_cost dc (monthly_cost r1)\<rparr>;
          r3 = r2\<lparr>speed_score := speed_score_of ds (avg_internet_mbps r2)\<rparr>
      in r3\<lparr>nomad_score := nomad_score_of wv wc ws r3\<rparr>)"

definition score_columns :: "string list \<Rightarrow> string list" where
  "score_columns cs =
     add_col ''nomad_score'' (add_col ''speed_score'' (add_col ''cost_score'' (add_col ''visa_score'' cs)))"

definition scored :: "dataframe \<Rightarrow> pfloat \<Rightarrow> pfloat \<Rightarrow> pfloat \<Rightarrow> dataframe" where
  "scored df wv wc ws =
     (let max_cost = col_max (map monthly_cost (rows df));
          min_cost = col_min (map monthly_cost (rows df));
          max_speed = col_max (map avg_internet_mbps (rows df))
      in df\<lparr>columns := score_columns (columns df),
            rows := map (score_row max_cost (denom_cost max_cost min_cost) (denom_speed max_speed)
                           wv wc ws) (rows df)\<rparr>)"

text \<open>The rows that pass the four filters of \<open>get_recommendations\<close>.\<close>

definition selected :: "dataframe \<Rightarrow> pfloat \<Rightarrow> pfloat \<Rightarrow> bool \<Rightarrow> string option \<Rightarrow> row \<Rightarrow> bool" where
  "selected df max_budget min_speed visa_free_only region_arg =
     (\<lambda>r. fle (monthly_cost r) max_budget
      \<and> (case region_target region_arg of
            None \<Rightarrow> True
          | Some target \<Rightarrow> has_col df ''region'' \<longrightarrow> str_casefold (astype_str (region r)) = target)
      \<and> (truthy min_speed \<longrightarrow> fge (avg_internet_mbps r) min_speed)
      \<and> (visa_free_only \<longrightarrow> visa_free r))"

text \<open>The home-country rows of a table are visa-free.\<close>

definition home_visa_ok :: "dataframe \<Rightarrow> bool" where
  "home_visa_ok df = (\<forall>r\<in>set (rows df). home_mask ''United States'' r \<longrightarrow> visa_free r)"

section \<open>Example data\<close>

definition blank_row :: row where
  "blank_row =
     \<lparr>city = None, rent_1br_city_center_usd = PyNone, utilities_basic_usd = PyNone,
      internet_60mbps_usd = PyNone, transport_monthly_pass_usd = PyNone, food_estimate_usd = PyNone,
      source = None, monthly_cost = NaN, country = None, visa_free = False, mobile_mbps = NaN,
      fixed_mbps = NaN, avg_internet_mbps = NaN, region = None, visa_score = NaN, cost_score = NaN,
      speed_score = NaN, nomad_score = NaN\<rparr>"

definition cost_row :: "string \<Rightarrow> cell \<Rightarrow> cell \<Rightarrow> cell \<Rightarrow> cell \<Rightarrow> cell \<Rightarrow> row" where
  "cost_row c rent util inet tran food =
     blank_row\<lparr>city := Some c, rent_1br_city_center_usd := rent, utilities_basic_usd := util,
       internet_60mbps_usd := inet, transport_monthly_pass_usd := tran, food_estimate_usd := food,
       source := Some (''https://www.numbeo.com/cost-of-living/in/'' @ c)\<rparr>"

definition cost_columns :: "string list" where
  "cost_columns =
     [''city'', ''rent_1br_city_center_usd'', ''utilities_basic_usd'', ''internet_60mbps_usd'',
      ''transport_monthly_pass_usd'', ''food_estimate_usd'', ''source'']"

text \<open>
  Four cities as \<open>fetch_cost_of_living\<close> may deliver them: the page of Bangkok had no
  utilities price, which the float column holds as NaN; Atlantis is no city of
  \<open>city_to_country\<close>.
\<close>

definition ex_cost :: dataframe where
  "ex_cost =
     \<lparr>columns = cost_columns,
      rows =
        [cost_row ''Zurich'' (Num (Fin 2500)) (Num (Fin 250)) (Num (Fin 50)) (Num (Fin 90)) (Num (Fin 110)),
         cost_row ''New York'' (Num (Fin 4000)) (Num (Fin 180)) (Num (Fin 70)) (Num (Fin 130)) (Num (Fin 120)),
         cost_row ''Bangkok'' (Num (Fin 600)) (Num NaN) (Num (Fin 20)) (Num (Fin 30)) (Num (Fin 50)),
         cost_row ''Atlantis'' (Num (Fin 700)) (Num (Fin 100)) (Num (Fin 20)) (Num (Fin 30)) (Num (Fin 50))]\<rparr>"

definition ex_mobile :: "speed_row list" where
  "ex_mobile =
     [\<lparr>Country = Some ''Switzerland'', Mbps = Fin 120\<rparr>,
      \<lparr>Country = Some ''United States'', Mbps = Fin 100\<rparr>]"

definition ex_fixed :: "speed_row list" where
  "ex_fixed =
     [\<lparr>Country = Some ''Switzerland'', Mbps = Fin 200\<rparr>,
      \<lparr>Country = Some ''Thailand'', Mbps = Fin 230\<rparr>]"

definition ex_visa :: "(string \<times> string list) list" where
  "ex_visa =
     [(''Visa-free countries'', [''Switzerland'', ''Thailand'']),
      (''Countries requiring visas'', [''China''])]"

definition new_recommender :: recommender where
  "new_recommender =
     \<lparr>visa_dict = None, cost_df = None, speed_mobile_df = None, speed_fixed_df = None,
      combined_data = None, cache_tag = None\<rparr>"

definition ex_loaded :: recommender where
  "ex_loaded =
     load_speed_data (load_cost_data (load_visa_data new_recommender ex_visa) ex_cost)
       ex_mobile ex_fixed"

definition ex_merged :: recommender where
  "ex_merged = projr (merge_datasets ex_loaded)"

definition ex_merged_df :: dataframe where
  "ex_merged_df = the (combined_data ex_merged)"

definition ex_scored :: recommender where
  "ex_scored = projr (calculate_nomad_score_default ex_merged)"

definition ex_scored_df :: dataframe where
  "ex_scored_df = the (combined_data ex_scored)"

text \<open>Two cities of equal cost, merged but not yet scored.\<close>

definition ex_flat :: recommender where
  "ex_flat =
     new_recommender\<lparr>combined_data := Some
       \<lparr>columns = [''city'', ''monthly_cost'', ''visa_free'', ''avg_internet_mbps''],
        rows = [blank_row\<lparr>city := Some ''Paris'', monthly_cost := Fin 2000, visa_free := True,
                          avg_internet_mbps := Fin 80\<rparr>,
                blank_row\<lparr>city := Some ''Berlin'', monthly_cost := Fin 2000,
                          avg_internet_mbps := Fin 40\<rparr>]\<rparr>\<rparr>"

definition ex_flat_df :: dataframe where
  "ex_flat_df = the (combined_data ex_flat)"

definition ex_flat_scored :: recommender where
  "ex_flat_scored = projr (calculate_nomad_score_default ex_flat)"

definition ex_flat_scored_df :: dataframe where
  "ex_flat_scored_df = the (combined_data ex_flat_scored)"

text \<open>A request for one city that \<open>city_to_country\<close> does not know: it gets no speed.\<close>

definition ex_unknown :: recommender where
  "ex_unknown =
     projr (merge_datasets (load_speed_data (load_cost_data (load_visa_data new_recommender ex_visa)
        \<lparr>columns = cost_columns,
         rows = [cost_row ''Atlantis'' (Num (Fin 700)) (Num (Fin 100)) (Num (Fin 20)) (Num (Fin 30))
                   (Num (Fin 50))]\<rparr>) ex_mobile ex_fixed))"

text \<open>
  A snapshot as an older version may have written it, the row of the United States not
  yet visa-free, and a working directory that holds it under today's tag.
\<close>

definition ex_snapshot :: dataframe where
  "ex_snapshot =
     \<lparr>columns = [''city'', ''country'', ''visa_free'', ''monthly_cost'', ''avg_internet_mbps'',
                 ''nomad_score''],
      rows = [blank_row\<lparr>city := Some ''Austin'', country := Some ''USA'', monthly_cost := Fin 2500,
                        avg_internet_mbps := Fin 150, nomad_score := Fin 60\<rparr>,
              blank_row\<lparr>city := Some ''Lyon'', country := Some ''France'', monthly_cost := Fin 1800,
                        avg_internet_mbps := Fin 120, nomad_score := Fin 70\<rparr>]\<rparr>"

definition ex_env_today :: env where
  "ex_env_today =
     \<lparr>CACHE_ONLY_MODE = False, today_tag = ''20251007'',
      files = [(''combined_default_20251007.csv'', Some ex_snapshot)],
      visa_source = ex_visa, cost_source = (\<lambda>cities. Some ex_cost),
      speed_source = Inr (Some ex_mobile, Some ex_fixed), fetched = []\<rparr>"

definition ex_adopted :: recommender where
  "ex_adopted = fst (snd (ensure_daily_dataset ex_env_today new_recommender None))"

definition ex_adopted_df :: dataframe where
  "ex_adopted_df = the (combined_data ex_adopted)"

text \<open>
  Cache-only mode with no usable snapshot: a snapshot without rows and one that cannot be
  read, both of earlier days.
\<close>

definition ex_env_stale :: env where
  "ex_env_stale =
     \<lparr>CACHE_ONLY_MODE = True, today_tag = ''20251007'',
      files = [(''notes.txt'', None),
               (''combined_default_20251001.csv'', Some \<lparr>columns = columns ex_snapshot, rows = []\<rparr>),
               (''combined_default_20251003.csv'', None)],
      visa_source = ex_visa, cost_source = (\<lambda>cities. Some ex_cost),
      speed_source = Inr (Some ex_mobile, Some ex_fixed), fetched = []\<rparr>"

text \<open>
  One city whose monthly cost, 999.996, lies within half a cent below a budget of 999.997.
\<close>

definition ex_near_budget :: recommender where
  "ex_near_budget =
     projr (calculate_nomad_score_default (projr (merge_datasets
       (load_speed_data (load_cost_data
          (load_visa_data new_recommender [(''Visa-free countries'', [''Portugal''])])
          \<lparr>columns = cost_columns,
           rows = [cost_row ''Lisbon'' (Num (Fin (899996 / 1000))) (Num (Fin 100)) PyNone PyNone PyNone]\<rparr>)
          [\<lparr>Country = Some ''Portugal'', Mbps = Fin 90\<rparr>]
          [\<lparr>Country = Some ''Portugal'', Mbps = Fin 150\<rparr>]))))"

text \<open>Two calls of \<open>get_recommendations\<close> on the scored example.\<close>

definition ex_recs :: dataframe where
  "ex_recs = projr (get_recommendations ex_scored (Fin 5000) (Fin 25) True 100 None)"

definition ex_recs_any_speed :: dataframe where
  "ex_recs_any_speed = projr (get_recommendations ex_scored (Fin 5000) (Fin 0) False 100 (Some '' other ''))"

section \<open>Scoring: properties\<close>

lemma add_col_mem [simp]: "c \<in> set (add_col c cs)"
  by (simp add: add_col_def)

lemma add_col_keeps [simp]: "c \<in> set cs \<Longrightarrow> c \<in> set (add_col d cs)"
  by (simp add: add_col_def)

lemma add_col_present: "c \<in> set cs \<Longrightarrow> add_col c cs = cs"
  by (simp add: add_col_def)

lemma add_col_other: "c \<noteq> d \<Longrightarrow> c \<in> set (add_col d cs) \<longleftrightarrow> c \<in> set cs"
  by (auto simp: add_col_def)

lemma calculate_nomad_score_Inr:
  "calculate_nomad_score self wv wc ws = Inr self' \<longleftrightarrow>
     (\<exists>df. combined_data self = Some df \<and> has_col df ''visa_free'' \<and> has_col df ''monthly_cost''
        \<and> has_col df ''avg_internet_mbps'' \<and> self' = self\<lparr>combined_data := Some (scored df wv wc ws)\<rparr>)"
  by (auto simp: calculate_nomad_score_def scored_def score_columns_def score_row_def has_col_def
        Let_def o_def add_col_other split: option.splits)

lemma score_columns_idem: "score_columns (score_columns cs) = score_columns cs"
  by (simp add: score_columns_def add_col_present)

lemma score_columns_keeps: "c \<in> set cs \<Longrightarrow> c \<in> set (score_columns cs)"
  by (simp add: score_columns_def)

lemma score_row_inputs [simp]:
  "monthly_cost (score_row m dc ds wv wc ws r) = monthly_cost r"
  "avg_internet_mbps (score_row m dc ds wv wc ws r) = avg_internet_mbps r"
  "visa_free (score_row m dc ds wv wc ws r) = visa_free r"
  "country (score_row m dc ds wv wc ws r) = country r"
  by (simp_all add: score_row_def Let_def)

lemma score_row_outputs:
  "visa_score (score_row m dc ds wv wc ws r) = visa_score_of (visa_free r)"
  "cost_score (score_row m dc ds wv wc ws r) = cost_score_of m dc (monthly_cost r)"
  "speed_score (score_row m dc ds wv wc ws r) = speed_score_of ds (avg_internet_mbps r)"
  "nomad_score (score_row m dc ds wv wc ws r) =
     fadd (fadd (fmul (visa_score_of (visa_free r)) wv) (fmul (cost_score_of m dc (monthly_cost r)) wc))
          (fmul (speed_score_of ds (avg_internet_mbps r)) ws)"
  by (simp_all add: score_row_def nomad_score_of_def Let_def)

lemma score_row_idem:
  "score_row m dc ds wv wc ws (score_row m dc ds wv wc ws r) = score_row m dc ds wv wc ws r"
  by (simp add: score_row_def nomad_score_of_def Let_def)

lemma scored_idem: "scored (scored df wv wc ws) wv wc ws = scored df wv wc ws"
  by (simp add: scored_def Let_def o_def score_columns_idem score_row_idem)

lemma scored_has_col: "has_col df c \<Longrightarrow> has_col (scored df wv wc ws) c"
  by (simp add: scored_def has_col_def Let_def score_columns_keeps)

lemma denom_cost_not_zero: "denom_cost a b \<noteq> Fin 0"
  by (cases a; cases b) (auto simp: denom_cost_def fne_def)

lemma denom_speed_not_zero: "denom_speed m \<noteq> Fin 0"
  by (cases m) (auto simp: denom_speed_def py_in_def)

lemma denom_speed_of_zero: "denom_speed (Fin 0) = Fin 1"
  by (simp add: denom_speed_def py_in_def)

lemma denom_speed_of_nan: "denom_speed NaN = NaN"
  by (simp add: denom_speed_def py_in_def)

lemma ex_merged_ok: "merge_datasets ex_loaded = Inr ex_merged"
  by code_simp

lemma ex_merged_df_ok: "combined_data ex_merged = Some ex_merged_df"
  by code_simp

lemma ex_scored_ok: "calculate_nomad_score_default ex_merged = Inr ex_scored"
  by code_simp

lemma ex_scored_df_ok: "combined_data ex_scored = Some ex_scored_df"
  by code_simp

text \<open>
  C1. In every table that \<open>calculate_nomad_score\<close> produces, each row's \<open>nomad_score\<close> is
  \<open>visa_score * visa_weight + cost_score * cost_weight + speed_score * speed_weight\<close>,
  for the weights of the call (0.25, 0.40 and 0.35 by default).
\<close>

theorem nomad_score_weighted_sum:
  assumes "calculate_nomad_score self visa_weight cost_weight speed_weight = Inr self'"
    and "combined_data self' = Some df'"
    and "r \<in> set (rows df')"
  shows "nomad_score r =
           fadd (fadd (fmul (visa_score r) visa_weight) (fmul (cost_score r) cost_weight))
                (fmul (speed_score r) speed_weight)"
  using assms
  by (auto simp: calculate_nomad_score_Inr scored_def Let_def score_row_outputs)

theorem nomad_score_weighted_sum_witness:
  "calculate_nomad_score ex_merged (Fin (25 / 100)) (Fin (40 / 100)) (Fin (35 / 100)) = Inr ex_scored
   \<and> combined_data ex_scored = Some ex_scored_df
   \<and> hd (rows ex_scored_df) \<in> set (rows ex_scored_df)
   \<and> nomad_score (hd (rows ex_scored_df)) = Fin (4555 / 69)
   \<and> fadd (fadd (fmul (visa_score (hd (rows ex_scored_df))) (Fin (25 / 100)))
                 (fmul (cost_score (hd (rows ex_scored_df))) (Fin (40 / 100))))
           (fmul (speed_score (hd (rows ex_scored_df))) (Fin (35 / 100))) = Fin (4555 / 69)"
proof -
  have h1: "calculate_nomad_score ex_merged (Fin (25 / 100)) (Fin (40 / 100)) (Fin (35 / 100)) = Inr ex_scored"
    using ex_scored_ok by (simp add: calculate_nomad_score_default_def)
  have h3: "hd (rows ex_scored_df) \<in> set (rows ex_scored_df)"
    by code_simp
  have v: "nomad_score (hd (rows ex_scored_df)) = Fin (4555 / 69)"
    by code_simp
  from nomad_score_weighted_sum [OF h1 ex_scored_df_ok h3] h1 ex_scored_df_ok h3 v
  show ?thesis by simp
qed

text \<open>
  C4. Scoring a table that \<open>calculate_nomad_score\<close> has scored, with the same weights,
  returns the very same table: every \<open>visa_score\<close>, \<open>cost_score\<close>, \<open>speed_score\<close> and
  \<open>nomad_score\<close> is unchanged.
\<close>

theorem scoring_idempotent:
  assumes "calculate_nomad_score self visa_weight cost_weight speed_weight = Inr self'"
  shows "calculate_nomad_score self' visa_weight cost_weight speed_weight = Inr self'"
proof -
  from assms obtain df where df: "combined_data self = Some df" "has_col df ''visa_free''"
    "has_col df ''monthly_cost''" "has_col df ''avg_internet_mbps''"
    and self': "self' = self\<lparr>combined_data := Some (scored df visa_weight cost_weight speed_weight)\<rparr>"
    unfolding calculate_nomad_score_Inr by blast
  show ?thesis
    unfolding calculate_nomad_score_Inr
    using df by (simp add: self' scored_has_col scored_idem)
qed

theorem scoring_idempotent_witness:
  "calculate_nomad_score ex_merged (Fin (25 / 100)) (Fin (40 / 100)) (Fin (35 / 100)) = Inr ex_scored
   \<and> calculate_nomad_score ex_scored (Fin (25 / 100)) (Fin (40 / 100)) (Fin (35 / 100)) = Inr ex_scored"
proof -
  have h1: "calculate_nomad_score ex_merged (Fin (25 / 100)) (Fin (40 / 100)) (Fin (35 / 100)) = Inr ex_scored"
    using ex_scored_ok by (simp add: calculate_nomad_score_default_def)
  from scoring_idempotent [OF h1] h1 show ?thesis by simp
qed

lemma finite_values_const:
  "\<forall>x\<in>set xs. x = Fin c \<Longrightarrow> finite_values xs = replicate (length xs) c"
  by (induction xs) auto

lemma fold_max_replicate: "fold max (replicate n c) (c::rat) = c"
  by (induction n) (simp_all del: fold_replicate)

lemma fold_min_replicate: "fold min (replicate n c) (c::rat) = c"
  by (induction n) (simp_all del: fold_replicate)

lemma col_max_const: "xs \<noteq> [] \<Longrightarrow> \<forall>x\<in>set xs. x = Fin c \<Longrightarrow> col_max xs = Fin c"
  by (cases xs) (simp_all add: col_max_def finite_values_const fold_max_replicate del: fold_replicate)

lemma col_min_const: "xs \<noteq> [] \<Longrightarrow> \<forall>x\<in>set xs. x = Fin c \<Longrightarrow> col_min xs = Fin c"
  by (cases xs) (simp_all add: col_min_def finite_values_const fold_min_replicate del: fold_replicate)

lemma feq_all_const:
  assumes "xs \<noteq> []" and "\<forall>x\<in>set xs. \<forall>y\<in>set xs. feq x y"
  obtains c where "\<forall>x\<in>set xs. x = Fin c"
proof -
  from assms(1) obtain x0 where x0: "x0 \<in> set xs" by (cases xs) auto
  with assms(2) have "feq x0 x0" by blast
  then obtain c where c: "x0 = Fin c" by (cases x0) auto
  have "\<forall>x\<in>set xs. x = Fin c"
  proof
    fix x assume "x \<in> set xs"
    with assms(2) x0 have "feq x0 x" by blast
    with c show "x = Fin c" by (cases x) auto
  qed
  then show thesis by (rule that)
qed

text \<open>
  C8. When all rows have the same \<open>monthly_cost\<close> (equal under \<open>==\<close>, so a number), the cost
  denominator is 1.0 and every row's \<open>cost_score\<close> is exactly 0.
\<close>

theorem equal_costs_score_zero:
  assumes "combined_data self = Some df"
    and "calculate_nomad_score self visa_weight cost_weight speed_weight = Inr self'"
    and "combined_data self' = Some df'"
    and "\<forall>r\<in>set (rows df). \<forall>r'\<in>set (rows df). feq (monthly_cost r) (monthly_cost r')"
  shows "(rows df \<noteq> [] \<longrightarrow>
            denom_cost (col_max (map monthly_cost (rows df))) (col_min (map monthly_cost (rows df))) = Fin 1)
         \<and> (\<forall>r\<in>set (rows df'). cost_score r = Fin 0)"
proof (cases "rows df = []")
  case True
  with assms(1-3) show ?thesis
    by (auto simp: calculate_nomad_score_Inr scored_def Let_def)
next
  case False
  let ?cs = "map monthly_cost (rows df)"
  have ne: "?cs \<noteq> []" using False by simp
  have eq: "\<forall>x\<in>set ?cs. \<forall>y\<in>set ?cs. feq x y" using assms(4) by auto
  obtain c where c: "\<forall>x\<in>set ?cs. x = Fin c" using feq_all_const [OF ne eq] by blast
  have mx: "col_max ?cs = Fin c" and mn: "col_min ?cs = Fin c"
    using col_max_const [OF ne c] col_min_const [OF ne c] by simp_all
  have dc: "denom_cost (col_max ?cs) (col_min ?cs) = Fin 1"
    by (simp add: mx mn denom_cost_def fne_def)
  have df': "df' = scored df visa_weight cost_weight speed_weight"
    using assms(1-3) by (auto simp: calculate_nomad_score_Inr)
  have "cost_score r = Fin 0" if "r \<in> set (rows df')" for r
  proof -
    from that obtain r0 where r0: "r0 \<in> set (rows df)"
      and r: "r = score_row (Fin c) (Fin 1) (denom_speed (col_max (map avg_internet_mbps (rows df))))
                   visa_weight cost_weight speed_weight r0"
      using dc by (auto simp: df' scored_def Let_def mx mn)
    from r0 c have "monthly_cost r0 = Fin c" by simp
    then show ?thesis by (simp add: r score_row_outputs cost_score_of_def)
  qed
  with dc show ?thesis by blast
qed

theorem equal_costs_score_zero_witness:
  "combined_data ex_flat = Some ex_flat_df
   \<and> calculate_nomad_score ex_flat (Fin (25 / 100)) (Fin (40 / 100)) (Fin (35 / 100)) = Inr ex_flat_scored
   \<and> combined_data ex_flat_scored = Some ex_flat_scored_df
   \<and> map monthly_cost (rows ex_flat_df) = [Fin 2000, Fin 2000]
   \<and> denom_cost (col_max (map monthly_cost (rows ex_flat_df))) (col_min (map monthly_cost (rows ex_flat_df))) = Fin 1
   \<and> list_all (\<lambda>r. cost_score r = Fin 0) (rows ex_flat_scored_df)
   \<and> length (rows ex_flat_scored_df) = 2"
proof -
  have h1: "combined_data ex_flat = Some ex_flat_df" by code_simp
  have h2: "calculate_nomad_score ex_flat (Fin (25 / 100)) (Fin (40 / 100)) (Fin (35 / 100)) = Inr ex_flat_scored"
    unfolding calculate_nomad_score_default_def [symmetric] by code_simp
  have h3: "combined_data ex_flat_scored = Some ex_flat_scored_df" by code_simp
  have costs: "map monthly_cost (rows ex_flat_df) = [Fin 2000, Fin 2000]" by code_simp
  have h4: "\<forall>r\<in>set (rows ex_flat_df). \<forall>r'\<in>set (rows ex_flat_df). feq (monthly_cost r) (monthly_cost r')"
  proof -
    have "\<forall>x\<in>set (map monthly_cost (rows ex_flat_df)). \<forall>y\<in>set (map monthly_cost (rows ex_flat_df)). feq x y"
      unfolding costs by simp
    then show ?thesis by simp
  qed
  have ne: "rows ex_flat_df \<noteq> []" using costs by auto
  have len: "length (rows ex_flat_scored_df) = 2" by code_simp
  from equal_costs_score_zero [OF h1 h2 h3 h4] ne h1 h2 h3 costs len show ?thesis
    by (simp add: list_all_iff)
qed

lemma speed_score_of_defined_max:
  "m \<noteq> 0 \<Longrightarrow> speed_score_of (denom_speed (Fin m)) (Fin s) = Fin (s / m * 100)"
  by (simp add: speed_score_of_def denom_speed_def py_in_def)

text \<open>
  C5. Where the greatest \<open>avg_internet_mbps\<close> is a number other than zero,
  \<open>speed_score\<close> is \<open>avg_internet_mbps / max_speed * 100\<close> (\<open>speed_score_of_defined_max\<close>);
  where it is zero, the denominator is 1.0 (\<open>denom_speed_of_zero\<close>); the denominator is
  never zero (\<open>denom_speed_not_zero\<close>). Where no row
  has a speed, the maximum is NaN, and NaN is in no tuple by \<open>==\<close>: the denominator is
  then NaN, not 1.0, and every \<open>speed_score\<close> is NaN divided by NaN.
\<close>

theorem speed_denominator_nan:
  "map avg_internet_mbps (rows (the (combined_data ex_unknown))) = [NaN]
   \<and> col_max (map avg_internet_mbps (rows (the (combined_data ex_unknown)))) = NaN
   \<and> denom_speed (col_max (map avg_internet_mbps (rows (the (combined_data ex_unknown))))) = NaN
   \<and> map speed_score (rows (the (combined_data (projr (calculate_nomad_score_default ex_unknown))))) = [NaN]"
  by code_simp

section \<open>Loading: properties\<close>

lemma or0_defined: "c \<noteq> Num NaN \<Longrightarrow> \<exists>a. or0 c = Fin a"
proof (cases c)
  case PyNone
  then show ?thesis by simp
next
  case (Num x)
  assume "c \<noteq> Num NaN"
  with Num show ?thesis by (cases x) simp_all
qed

lemma row_get_or0_defined: "field r \<noteq> Num NaN \<Longrightarrow> \<exists>a. row_get_or0 df c field r = Fin a"
  using or0_defined [of "field r"] by (simp add: row_get_or0_def)

lemma monthly_cost_defined:
  assumes "rent_1br_city_center_usd r \<noteq> Num NaN" and "utilities_basic_usd r \<noteq> Num NaN"
    and "internet_60mbps_usd r \<noteq> Num NaN" and "transport_monthly_pass_usd r \<noteq> Num NaN"
    and "food_estimate_usd r \<noteq> Num NaN"
  shows "\<exists>a. py_sum
           [row_get_or0 df ''rent_1br_city_center_usd'' rent_1br_city_center_usd r,
            row_get_or0 df ''utilities_basic_usd'' utilities_basic_usd r,
            row_get_or0 df ''internet_60mbps_usd'' internet_60mbps_usd r,
            row_get_or0 df ''transport_monthly_pass_usd'' transport_monthly_pass_usd r,
            row_get_or0 df ''food_estimate_usd'' food_estimate_usd r] = Fin a"
proof -
  from assms obtain a b c d e where
    "row_get_or0 df ''rent_1br_city_center_usd'' rent_1br_city_center_usd r = Fin a"
    "row_get_or0 df ''utilities_basic_usd'' utilities_basic_usd r = Fin b"
    "row_get_or0 df ''internet_60mbps_usd'' internet_60mbps_usd r = Fin c"
    "row_get_or0 df ''transport_monthly_pass_usd'' transport_monthly_pass_usd r = Fin d"
    "row_get_or0 df ''food_estimate_usd'' food_estimate_usd r = Fin e"
    using row_get_or0_defined by metis
  then show ?thesis by (simp add: py_sum_def)
qed


text \<open>
  C6. \<open>load_cost_data\<close> counts a component that is absent or \<open>None\<close> as 0, and the sum
  is a number when no component is NaN (\<open>monthly_cost_defined\<close>). A component that is NaN
  is true for \<open>or\<close> and stays in the sum: the \<open>monthly_cost\<close> of Bangkok, whose utilities
  price is NaN, is NaN and not 700.
\<close>

theorem monthly_cost_nan_component:
  "map utilities_basic_usd (rows ex_cost) = [Num (Fin 250), Num (Fin 180), Num NaN, Num (Fin 100)]
   \<and> map monthly_cost (rows (the (cost_df (load_cost_data new_recommender ex_cost))))
       = [Fin 3000, Fin 4500, NaN, Fin 900]"
  by code_simp

section \<open>Merging and the home country: properties\<close>

lemma list_all2_setD1: "list_all2 P xs ys \<Longrightarrow> x \<in> set xs \<Longrightarrow> \<exists>y\<in>set ys. P x y"
  by (induction rule: list_all2_induct) auto

lemma has_col_ensure_region_column:
  "has_col df c \<Longrightarrow> has_col (ensure_region_column df) c"
  by (simp add: ensure_region_column_def has_col_def Let_def)

lemma ensure_region_column_rows:
  "list_all2 (\<lambda>r r0. r = r0\<lparr>region := region r\<rparr>) (rows (ensure_region_column df)) (rows df)"
  by (simp add: ensure_region_column_def Let_def list_all2_map1 list_all2_same o_def)

lemma ensure_region_column_fields:
  assumes "r \<in> set (rows (ensure_region_column df))"
  shows "\<exists>r0\<in>set (rows df). country r = country r0 \<and> visa_free r = visa_free r0
        \<and> mobile_mbps r = mobile_mbps r0 \<and> fixed_mbps r = fixed_mbps r0
        \<and> avg_internet_mbps r = avg_internet_mbps r0"
proof -
  from list_all2_setD1 [OF ensure_region_column_rows assms]
  obtain r0 where r0: "r0 \<in> set (rows df)" and eq: "r = r0\<lparr>region := region r\<rparr>" by blast
  have "country r = country r0 \<and> visa_free r = visa_free r0
        \<and> mobile_mbps r = mobile_mbps r0 \<and> fixed_mbps r = fixed_mbps r0
        \<and> avg_internet_mbps r = avg_internet_mbps r0"
    by (subst eq, simp)+
  with r0 show ?thesis by blast
qed

lemma override_rows:
  "list_all2 (\<lambda>r r0. r = r0\<lparr>visa_free := visa_free r\<rparr>)
     (rows (apply_home_country_visa_override df home)) (rows df)"
  by (simp add: apply_home_country_visa_override_def list_all2_map1 list_all2_same)

lemma override_fields:
  assumes "r \<in> set (rows (apply_home_country_visa_override df home))"
  shows "\<exists>r0\<in>set (rows df). country r = country r0
        \<and> mobile_mbps r = mobile_mbps r0 \<and> fixed_mbps r = fixed_mbps r0
        \<and> avg_internet_mbps r = avg_internet_mbps r0"
proof -
  from list_all2_setD1 [OF override_rows assms]
  obtain r0 where r0: "r0 \<in> set (rows df)" and eq: "r = r0\<lparr>visa_free := visa_free r\<rparr>" by blast
  have "country r = country r0
        \<and> mobile_mbps r = mobile_mbps r0 \<and> fixed_mbps r = fixed_mbps r0
        \<and> avg_internet_mbps r = avg_internet_mbps r0"
    by (subst eq, simp)+
  with r0 show ?thesis by blast
qed

lemma home_mask_visa_free_update [simp]: "home_mask h (r\<lparr>visa_free := v\<rparr>) = home_mask h r"
  by (simp add: home_mask_def)

lemma override_sets_home_rows:
  assumes "has_col df ''country''" and "has_col df ''visa_free''"
    and "r \<in> set (rows (apply_home_country_visa_override df home))"
    and "home_mask home r"
  shows "visa_free r"
proof -
  from assms(1-3) have
    "r \<in> (\<lambda>r. if home_mask home r then r\<lparr>visa_free := True\<rparr> else r) ` set (rows df)"
    by (simp add: apply_home_country_visa_override_def)
  then obtain r0 where
    "r = (if home_mask home r0 then r0\<lparr>visa_free := True\<rparr> else r0)"
    by blast
  with assms(4) show ?thesis by (cases "home_mask home r0") simp_all
qed

lemma override_columns [simp]:
  "columns (apply_home_country_visa_override df home) = columns df"
  by (simp add: apply_home_country_visa_override_def)

lemma home_visa_ok_override:
  "has_col df ''country'' \<Longrightarrow> has_col df ''visa_free'' \<Longrightarrow>
     home_visa_ok (apply_home_country_visa_override df ''United States'')"
  unfolding home_visa_ok_def using override_sets_home_rows by blast

lemma home_mask_score_row [simp]: "home_mask h (score_row m dc ds wv wc ws r) = home_mask h r"
  by (simp add: home_mask_def)

lemma home_visa_ok_scored: "home_visa_ok df \<Longrightarrow> home_visa_ok (scored df wv wc ws)"
  by (simp add: home_visa_ok_def scored_def Let_def)

lemma merge_speed_Inr:
  "merge_speed c put sp base = Inr base' \<Longrightarrow> has_col base d \<Longrightarrow> has_col base' d"
  by (auto simp: merge_speed_def has_col_def split: option.splits if_splits)

lemma merge_datasets_Inr:
  assumes "merge_datasets self = Inr self'"
  shows "\<exists>base4. has_col base4 ''country'' \<and> has_col base4 ''visa_free'' \<and>
           self' = self\<lparr>combined_data := Some (apply_home_country_visa_override
             (ensure_region_column (with_avg_internet_mbps base4)) ''United States'')\<rparr>"
proof -
  from assms obtain base0 where b0: "cost_df self = Some base0"
    by (cases "cost_df self") (simp_all add: merge_datasets_def)
  let ?b2 = "with_visa_free (visa_free_countries (visa_dict self)) (with_country base0)"
  have c2: "has_col ?b2 ''country''" "has_col ?b2 ''visa_free''"
    by (simp_all add: with_visa_free_def with_country_def has_col_def)
  from assms b0 obtain base3 base4 where
    m3: "merge_speed ''mobile_mbps'' (\<lambda>r v. r\<lparr>mobile_mbps := v\<rparr>) (speed_mobile_df self) ?b2 = Inr base3"
    and m4: "merge_speed ''fixed_mbps'' (\<lambda>r v. r\<lparr>fixed_mbps := v\<rparr>) (speed_fixed_df self) base3 = Inr base4"
    and s: "self' = self\<lparr>combined_data := Some (apply_home_country_visa_override
             (ensure_region_column (with_avg_internet_mbps base4)) ''United States'')\<rparr>"
    by (auto simp: merge_datasets_def Let_def split: if_splits sum.splits)
  from merge_speed_Inr [OF m4] merge_speed_Inr [OF m3] c2
  have "has_col base4 ''country''" "has_col base4 ''visa_free''" by blast+
  with s show ?thesis by blast
qed

lemma row_mean_two:
  "row_mean [a, b] =
     (case (a, b) of
        (Fin x, Fin y) \<Rightarrow> Fin ((x + y) / 2)
      | (Fin x, NaN) \<Rightarrow> Fin x
      | (NaN, Fin y) \<Rightarrow> Fin y
      | (NaN, NaN) \<Rightarrow> NaN)"
  by (cases a; cases b) (simp_all add: row_mean_def)

text \<open>
  C9. In every row of the merged table, \<open>avg_internet_mbps\<close> is the mean of those of
  \<open>mobile_mbps\<close> and \<open>fixed_mbps\<close> that are present: their average when both are, the one
  value when one is, and NaN (not zero) when neither is.
\<close>

theorem avg_is_mean_of_present_speeds:
  assumes "merge_datasets self = Inr self'"
    and "combined_data self' = Some df"
    and "r \<in> set (rows df)"
  shows "avg_internet_mbps r =
           (case (mobile_mbps r, fixed_mbps r) of
              (Fin a, Fin b) \<Rightarrow> Fin ((a + b) / 2)
            | (Fin a, NaN) \<Rightarrow> Fin a
            | (NaN, Fin b) \<Rightarrow> Fin b
            | (NaN, NaN) \<Rightarrow> NaN)"
proof -
  from merge_datasets_Inr [OF assms(1)] assms(2) obtain base4 where
    df: "df = apply_home_country_visa_override
             (ensure_region_column (with_avg_internet_mbps base4)) ''United States''"
    by auto
  from assms(3) obtain r1 where r1: "r1 \<in> set (rows (ensure_region_column (with_avg_internet_mbps base4)))"
    and e1: "mobile_mbps r = mobile_mbps r1" "fixed_mbps r = fixed_mbps r1"
      "avg_internet_mbps r = avg_internet_mbps r1"
    unfolding df using override_fields by blast
  from ensure_region_column_fields [OF r1] obtain r2 where r2: "r2 \<in> set (rows (with_avg_internet_mbps base4))"
    and e2: "mobile_mbps r1 = mobile_mbps r2" "fixed_mbps r1 = fixed_mbps r2"
       "avg_internet_mbps r1 = avg_internet_mbps r2"
    by blast
  from r2 have "avg_internet_mbps r2 = row_mean [mobile_mbps r2, fixed_mbps r2]"
    by (auto simp: with_avg_internet_mbps_def)
  then have "avg_internet_mbps r = row_mean [mobile_mbps r, fixed_mbps r]"
    using e1 e2 by simp
  then show ?thesis by (simp only: row_mean_two)
qed

theorem avg_is_mean_of_present_speeds_witness:
  "merge_datasets ex_loaded = Inr ex_merged \<and> combined_data ex_merged = Some ex_merged_df
   \<and> hd (rows ex_merged_df) \<in> set (rows ex_merged_df)
   \<and> map (\<lambda>r. (mobile_mbps r, fixed_mbps r, avg_internet_mbps r)) (rows ex_merged_df)
       = [(Fin 120, Fin 200, Fin 160), (Fin 100, NaN, Fin 100), (NaN, Fin 230, Fin 230), (NaN, NaN, NaN)]
   \<and> avg_internet_mbps (hd (rows ex_merged_df))
       = (case (mobile_mbps (hd (rows ex_merged_df)), fixed_mbps (hd (rows ex_merged_df))) of
            (Fin a, Fin b) \<Rightarrow> Fin ((a + b) / 2)
          | (Fin a, NaN) \<Rightarrow> Fin a
          | (NaN, Fin b) \<Rightarrow> Fin b
          | (NaN, NaN) \<Rightarrow> NaN)"
proof -
  have h3: "hd (rows ex_merged_df) \<in> set (rows ex_merged_df)" by code_simp
  have v: "map (\<lambda>r. (mobile_mbps r, fixed_mbps r, avg_internet_mbps r)) (rows ex_merged_df)
       = [(Fin 120, Fin 200, Fin 160), (Fin 100, NaN, Fin 100), (NaN, Fin 230, Fin 230), (NaN, NaN, NaN)]"
    by code_simp
  from avg_is_mean_of_present_speeds [OF ex_merged_ok ex_merged_df_ok h3] ex_merged_ok ex_merged_df_ok h3 v
  show ?thesis by blast
qed

lemma merge_datasets_home_visa_ok:
  assumes "merge_datasets self = Inr self'" and "combined_data self' = Some df"
  shows "home_visa_ok df"
proof -
  from merge_datasets_Inr [OF assms(1)] assms(2) obtain base4 where
    df: "df = apply_home_country_visa_override (ensure_region_column (with_avg_internet_mbps base4)) ''United States''"
    and c: "has_col base4 ''country''" "has_col base4 ''visa_free''"
    by auto
  have c5: "has_col (with_avg_internet_mbps base4) ''country''" "has_col (with_avg_internet_mbps base4) ''visa_free''"
    using c by (simp_all add: with_avg_internet_mbps_def has_col_def)
  show ?thesis unfolding df
    by (intro home_visa_ok_override has_col_ensure_region_column c5)
qed

lemma calculate_nomad_score_home_visa_ok:
  assumes "calculate_nomad_score self wv wc ws = Inr self'" and "combined_data self = Some df"
    and "home_visa_ok df" and "combined_data self' = Some df'"
  shows "home_visa_ok df'"
  using assms by (auto simp: calculate_nomad_score_Inr home_visa_ok_scored)

lemma df_looks_valid_cols:
  "df_looks_valid (Some df) \<Longrightarrow> has_col df ''country'' \<and> has_col df ''visa_free''"
  by (simp add: df_looks_valid_def EXPECTED_CACHE_COLS_def split: if_splits)

section \<open>The orchestrator: properties\<close>

lemma adopt_snapshot_home_visa_ok:
  assumes "df_looks_valid (Some cached)"
    and "adopt_snapshot self cached tag = (None, self')"
    and "combined_data self' = Some df"
  shows "home_visa_ok df"
proof -
  let ?c2 = "apply_home_country_visa_override (ensure_region_column cached) ''United States''"
  have ok: "home_visa_ok ?c2"
    using df_looks_valid_cols [OF assms(1)]
    by (intro home_visa_ok_override has_col_ensure_region_column) simp_all
  show ?thesis
  proof (cases "has_col ?c2 ''nomad_score''")
    case True
    with assms(2) have "self' = self\<lparr>combined_data := Some ?c2, cache_tag := tag\<rparr>"
      by (simp add: adopt_snapshot_def Let_def)
    with assms(3) ok show ?thesis by simp
  next
    case False
    with assms(2) obtain self2 where
      sc: "calculate_nomad_score_default (self\<lparr>combined_data := Some ?c2\<rparr>) = Inr self2"
      and s': "self' = self2\<lparr>cache_tag := tag\<rparr>"
      by (cases "calculate_nomad_score_default (self\<lparr>combined_data := Some ?c2\<rparr>)")
         (simp_all add: adopt_snapshot_def Let_def)
    from assms(3) s' have d: "combined_data self2 = Some df" by simp
    have c: "combined_data (self\<lparr>combined_data := Some ?c2\<rparr>) = Some ?c2" by simp
    from calculate_nomad_score_home_visa_ok [OF sc [unfolded calculate_nomad_score_default_def] c ok d]
    show ?thesis .
  qed
qed

lemma try_read_today_valid: "try_read_today e = Some df \<Longrightarrow> df_looks_valid (Some df)"
  by (simp add: try_read_today_def split: option.splits if_splits)

lemma try_read_latest_valid: "try_read_latest_any_day e = (Some df, tag) \<Longrightarrow> df_looks_valid (Some df)"
  by (simp add: try_read_latest_any_day_def split: option.splits if_splits)

lemma load_combined_data [simp]:
  "combined_data (load_visa_data self d) = combined_data self"
  "combined_data (load_cost_data self c) = combined_data self"
  "combined_data (load_speed_data self m f) = combined_data self"
  by (simp_all add: load_visa_data_def load_cost_data_def load_speed_data_def)

lemma ensure_daily_dataset_cached:
  "try_read_today e = Some cached \<Longrightarrow>
     ensure_daily_dataset e self cities =
       (fst (adopt_snapshot self cached (Some (today_tag e))),
        snd (adopt_snapshot self cached (Some (today_tag e))), e)"
  by (simp add: ensure_daily_dataset_def split: prod.splits)

lemma ensure_daily_dataset_cache_only:
  "try_read_today e = None \<Longrightarrow> CACHE_ONLY_MODE e \<Longrightarrow>
     ensure_daily_dataset e self cities =
       (case try_read_latest_any_day e of
          (None, tag) \<Rightarrow> (Some NoCachedDataError, self, e)
        | (Some latest, tag) \<Rightarrow>
            (fst (adopt_snapshot self latest tag), snd (adopt_snapshot self latest tag), e))"
  by (simp add: ensure_daily_dataset_def split: prod.splits option.splits)

lemma ensure_daily_dataset_fresh:
  assumes "try_read_today e = None" and "\<not> CACHE_ONLY_MODE e"
    and "ensure_daily_dataset e self cities = (None, self', e')"
  shows "\<exists>self3 self4 self5. merge_datasets self3 = Inr self4
           \<and> calculate_nomad_score_default self4 = Inr self5
           \<and> combined_data self' = combined_data self5"
  using assms
  by (auto simp: ensure_daily_dataset_def Let_def split: option.splits sum.splits prod.splits
        intro!: exI)

lemma strip_home_names:
  "c \<in> set [''United States'', ''United States of America'', ''USA'', ''US''] \<Longrightarrow> str_strip c = c"
  by (auto simp: str_strip_def is_space_def)

lemma home_mask_names:
  "country r = Some c \<Longrightarrow> c \<in> set [''United States'', ''United States of America'', ''USA'', ''US'']
     \<Longrightarrow> home_mask ''United States'' r"
  using strip_home_names [of c] by (simp add: home_mask_def astype_str_def)

lemma ensure_daily_dataset_home_visa_ok:
  assumes "ensure_daily_dataset e self cities = (None, self', e')"
    and "combined_data self' = Some df"
  shows "home_visa_ok df"
proof (cases "try_read_today e")
  case (Some cached)
  with assms(1) have "adopt_snapshot self cached (Some (today_tag e)) = (None, self')"
    by (auto simp: ensure_daily_dataset_cached prod_eq_iff)
  from adopt_snapshot_home_visa_ok [OF try_read_today_valid [OF Some] this assms(2)]
  show ?thesis .
next
  case None
  show ?thesis
  proof (cases "CACHE_ONLY_MODE e")
    case True
    with None assms(1) obtain latest tag where l: "try_read_latest_any_day e = (Some latest, tag)"
      and a: "adopt_snapshot self latest tag = (None, self')"
      by (auto simp: ensure_daily_dataset_cache_only prod_eq_iff split: prod.splits option.splits)
    from adopt_snapshot_home_visa_ok [OF try_read_latest_valid [OF l] a assms(2)]
    show ?thesis .
  next
    case False
    from ensure_daily_dataset_fresh [OF None False assms(1)] obtain self3 self4 self5 where
      m: "merge_datasets self3 = Inr self4"
      and sc: "calculate_nomad_score_default self4 = Inr self5"
      and s': "combined_data self' = combined_data self5"
      by blast
    from sc obtain df4 where d4: "combined_data self4 = Some df4"
      by (auto simp: calculate_nomad_score_default_def calculate_nomad_score_Inr)
    from s' assms(2) have d5: "combined_data self5 = Some df" by simp
    from calculate_nomad_score_home_visa_ok [OF sc [unfolded calculate_nomad_score_default_def] d4
        merge_datasets_home_visa_ok [OF m d4] d5]
    show ?thesis .
  qed
qed

text \<open>
  C7. After the home-country override, in the table that \<open>merge_datasets\<close> builds and in
  the table that \<open>ensure_daily_dataset\<close> adopts (a snapshot read from disk, or a fresh
  build), every row whose country is \<open>United States\<close>, \<open>United States of America\<close>, \<open>USA\<close>
  or \<open>US\<close> has \<open>visa_free\<close> true, whatever the visa-free country set says.
\<close>

theorem home_country_visa_free:
  "(merge_datasets self = Inr self' \<and> combined_data self' = Some df \<and> r \<in> set (rows df)
      \<and> country r = Some c
      \<and> c \<in> set [''United States'', ''United States of America'', ''USA'', ''US'']
     \<longrightarrow> visa_free r)
   \<and> (ensure_daily_dataset e inst cities = (None, inst', e') \<and> combined_data inst' = Some snap
      \<and> q \<in> set (rows snap) \<and> country q = Some d
      \<and> d \<in> set [''United States'', ''United States of America'', ''USA'', ''US'']
     \<longrightarrow> visa_free q)"
proof (intro conjI impI)
  assume a: "merge_datasets self = Inr self' \<and> combined_data self' = Some df \<and> r \<in> set (rows df)
      \<and> country r = Some c
      \<and> c \<in> set [''United States'', ''United States of America'', ''USA'', ''US'']"
  then have "home_visa_ok df" using merge_datasets_home_visa_ok by blast
  moreover from a have "home_mask ''United States'' r" using home_mask_names by blast
  ultimately show "visa_free r" using a unfolding home_visa_ok_def by blast
next
  assume a: "ensure_daily_dataset e inst cities = (None, inst', e') \<and> combined_data inst' = Some snap
      \<and> q \<in> set (rows snap) \<and> country q = Some d
      \<and> d \<in> set [''United States'', ''United States of America'', ''USA'', ''US'']"
  then have "home_visa_ok snap" using ensure_daily_dataset_home_visa_ok by blast
  moreover from a have "home_mask ''United States'' q" using home_mask_names by blast
  ultimately show "visa_free q" using a unfolding home_visa_ok_def by blast
qed

theorem home_country_visa_free_witness:
  "merge_datasets ex_loaded = Inr ex_merged \<and> combined_data ex_merged = Some ex_merged_df
   \<and> rows ex_merged_df ! 1 \<in> set (rows ex_merged_df)
   \<and> country (rows ex_merged_df ! 1) = Some ''United States''
   \<and> ''United States'' \<notin> set (visa_free_countries (visa_dict ex_loaded))
   \<and> visa_free (rows ex_merged_df ! 1)
   \<and> ensure_daily_dataset ex_env_today new_recommender None = (None, ex_adopted, ex_env_today)
   \<and> combined_data ex_adopted = Some ex_adopted_df
   \<and> hd (rows ex_adopted_df) \<in> set (rows ex_adopted_df)
   \<and> country (hd (rows ex_adopted_df)) = Some ''USA''
   \<and> \<not> visa_free (hd (rows ex_snapshot))
   \<and> visa_free (hd (rows ex_adopted_df))"
proof -
  have m1: "merge_datasets ex_loaded = Inr ex_merged" by code_simp
  have m2: "combined_data ex_merged = Some ex_merged_df" by code_simp
  have m3: "rows ex_merged_df ! 1 \<in> set (rows ex_merged_df)" by code_simp
  have m4: "country (rows ex_merged_df ! 1) = Some ''United States''" by code_simp
  have m5: "''United States'' \<in> set [''United States'', ''United States of America'', ''USA'', ''US'']"
    by simp
  have m6: "''United States'' \<notin> set (visa_free_countries (visa_dict ex_loaded))" by code_simp
  have t: "try_read_today ex_env_today = Some ex_snapshot" by code_simp
  have a: "adopt_snapshot new_recommender ex_snapshot (Some (today_tag ex_env_today)) = (None, ex_adopted)"
    by code_simp
  have e1: "ensure_daily_dataset ex_env_today new_recommender None = (None, ex_adopted, ex_env_today)"
    by (simp add: ensure_daily_dataset_cached [OF t] a)
  have e2: "combined_data ex_adopted = Some ex_adopted_df" by code_simp
  have e3: "hd (rows ex_adopted_df) \<in> set (rows ex_adopted_df)" by code_simp
  have e4: "country (hd (rows ex_adopted_df)) = Some ''USA''" by code_simp
  have e5: "''USA'' \<in> set [''United States'', ''United States of America'', ''USA'', ''US'']"
    by simp
  have e6: "\<not> visa_free (hd (rows ex_snapshot))" by code_simp
  from home_country_visa_free [of ex_loaded ex_merged ex_merged_df "rows ex_merged_df ! 1"
      "''United States''" ex_env_today new_recommender None ex_adopted ex_env_today ex_adopted_df
      "hd (rows ex_adopted_df)" "''USA''"]
    m1 m2 m3 m4 m5 m6 e1 e2 e3 e4 e5 e6
  show ?thesis by blast
qed

lemma newest_mem: "newest cs best = Some c \<Longrightarrow> c \<in> set cs \<or> best = Some c"
  by (induction cs best rule: newest.induct) (auto split: if_splits)

lemma find_latest_is_snapshot:
  assumes "find_latest_combined_cache e = Some fp"
  shows "glob_combined fp \<and> extract_tag_from_filename fp \<noteq> None"
proof -
  let ?cands = "concat (map (\<lambda>f. if glob_combined (fst f)
                              then (case extract_tag_from_filename (fst f) of
                                      None \<Rightarrow> []
                                    | Some tag \<Rightarrow> [(tag, fst f)])
                              else []) (files e))"
  from assms obtain t where "newest ?cands None = Some (t, fp)"
    by (auto simp: find_latest_combined_cache_def Let_def)
  from newest_mem [OF this] have "(t, fp) \<in> set ?cands" by simp
  then obtain f where "f \<in> set (files e)"
    and m: "(t, fp) \<in> set (if glob_combined (fst f)
                              then (case extract_tag_from_filename (fst f) of
                                      None \<Rightarrow> []
                                    | Some tag \<Rightarrow> [(tag, fst f)])
                              else [])"
    unfolding set_concat set_map by blast
  show ?thesis
  proof (cases "glob_combined (fst f)")
    case False
    with m show ?thesis by simp
  next
    case True
    with m show ?thesis by (cases "extract_tag_from_filename (fst f)") auto
  qed
qed

text \<open>
  C3. In cache-only mode, when no snapshot file on disk (today's file, or any file
  \<open>combined_*_<8 digits>.csv\<close>) reads as a valid table, \<open>ensure_daily_dataset\<close> raises
  \<open>NoCachedDataError\<close> and leaves the instance and the world as they were: no source
  adapter has been called.
\<close>

theorem cache_only_without_snapshot:
  assumes "CACHE_ONLY_MODE e"
    and "\<forall>f\<in>set (files e).
           (fst f = combined_csv_path e \<or> (glob_combined (fst f) \<and> extract_tag_from_filename (fst f) \<noteq> None))
           \<longrightarrow> \<not> df_looks_valid (snd f)"
  shows "ensure_daily_dataset e self cities = (Some NoCachedDataError, self, e)"
proof -
  have t: "try_read_today e = None"
  proof (cases "map_of (files e) (combined_csv_path e)")
    case None
    then show ?thesis by (simp add: try_read_today_def)
  next
    case (Some content)
    then have "(combined_csv_path e, content) \<in> set (files e)" by (rule map_of_SomeD)
    with assms(2) have "\<not> df_looks_valid content" by fastforce
    with Some show ?thesis by (auto simp: try_read_today_def split: option.splits)
  qed
  have l: "try_read_latest_any_day e = (None, None)"
  proof (cases "find_latest_combined_cache e")
    case None
    then show ?thesis by (simp add: try_read_latest_any_day_def)
  next
    case (Some fp)
    note fp = find_latest_is_snapshot [OF Some]
    show ?thesis
    proof (cases "map_of (files e) fp")
      case None
      with Some show ?thesis by (simp add: try_read_latest_any_day_def)
    next
      case (Some content)
      then have "(fp, content) \<in> set (files e)" by (rule map_of_SomeD)
      with assms(2) fp have "\<not> df_looks_valid content" by fastforce
      with Some \<open>find_latest_combined_cache e = Some fp\<close> show ?thesis
        by (auto simp: try_read_latest_any_day_def split: option.splits)
    qed
  qed
  show ?thesis
    by (simp add: ensure_daily_dataset_cache_only [OF t assms(1)] l)
qed

theorem cache_only_without_snapshot_witness:
  "CACHE_ONLY_MODE ex_env_stale
   \<and> map fst (files ex_env_stale)
       = [''notes.txt'', ''combined_default_20251001.csv'', ''combined_default_20251003.csv'']
   \<and> list_all (\<lambda>f. \<not> df_looks_valid (snd f)) (files ex_env_stale)
   \<and> ensure_daily_dataset ex_env_stale new_recommender None
       = (Some NoCachedDataError, new_recommender, ex_env_stale)
   \<and> fetched ex_env_stale = []"
proof -
  have h1: "CACHE_ONLY_MODE ex_env_stale" by code_simp
  have names: "map fst (files ex_env_stale)
       = [''notes.txt'', ''combined_default_20251001.csv'', ''combined_default_20251003.csv'']"
    by code_simp
  have inv: "list_all (\<lambda>f. \<not> df_looks_valid (snd f)) (files ex_env_stale)" by code_simp
  then have h2: "\<forall>f\<in>set (files ex_env_stale).
           (fst f = combined_csv_path ex_env_stale
             \<or> (glob_combined (fst f) \<and> extract_tag_from_filename (fst f) \<noteq> None))
           \<longrightarrow> \<not> df_looks_valid (snd f)"
    by (simp add: list_all_iff)
  have f: "fetched ex_env_stale = []" by code_simp
  from cache_only_without_snapshot [OF h1 h2, of new_recommender None] h1 names inv f
  show ?thesis by blast
qed

section \<open>Recommendations: properties\<close>

lemma rint_bounds: "\<lfloor>x\<rfloor> \<le> rint x \<and> rint x \<le> \<lfloor>x\<rfloor> + 1"
  by (simp add: rint_def Let_def)

lemma rint_mono:
  assumes "x \<le> y"
  shows "rint x \<le> rint y"
proof (cases "\<lfloor>x\<rfloor> < \<lfloor>y\<rfloor>")
  case True
  then show ?thesis using rint_bounds [of x] rint_bounds [of y] by linarith
next
  case False
  with assms have eq: "\<lfloor>x\<rfloor> = \<lfloor>y\<rfloor>" using floor_mono [OF assms] by linarith
  have "x - of_int \<lfloor>y\<rfloor> \<le> y - of_int \<lfloor>y\<rfloor>" using assms by simp
  then show ?thesis by (auto simp: rint_def Let_def eq)
qed

lemma round2_mono: "fle a b \<Longrightarrow> fle (round2 a) (round2 b)"
proof (cases a; cases b)
  fix x y assume a: "a = Fin x" and b: "b = Fin y" and le: "fle a b"
  then have "x * 100 \<le> y * 100" by simp
  from rint_mono [OF this] have "(of_int (rint (x * 100)) :: rat) \<le> of_int (rint (y * 100))"
    by simp
  then show ?thesis by (simp add: a b divide_right_mono)
qed simp_all

lemma round2_is_nan [simp]: "round2 a = NaN \<longleftrightarrow> a = NaN"
  by (cases a) simp_all

lemma truthy_iff: "truthy a \<longleftrightarrow> a \<noteq> Fin 0"
  by (cases a) simp_all

lemma fge_not_nan: "fge a b \<Longrightarrow> a \<noteq> NaN"
  by (cases a; cases b) (simp_all add: fge_def)

lemma set_nlargest: "set (nlargest n rs) \<subseteq> set rs"
proof -
  have "set (nlargest n rs) \<subseteq> set (sort_key neg_score (filter (\<lambda>r. nomad_score r \<noteq> NaN) rs)
                   @ filter (\<lambda>r. nomad_score r = NaN) rs)"
    unfolding nlargest_def by (rule set_take_subset)
  also have "\<dots> \<subseteq> set rs" by auto
  finally show ?thesis .
qed

lemma length_nlargest: "length (nlargest n rs) \<le> nat n"
  by (simp add: nlargest_def)

lemma nlargest_all:
  assumes "length rs \<le> nat n"
  shows "set (nlargest n rs) = set rs"
proof -
  let ?l = "sort_key neg_score (filter (\<lambda>r. nomad_score r \<noteq> NaN) rs) @ filter (\<lambda>r. nomad_score r = NaN) rs"
  have "length ?l = length rs"
    using sum_length_filter_compl [of "\<lambda>r. nomad_score r \<noteq> NaN" rs] by simp
  with assms have "take (nat n) ?l = ?l" by simp
  then have "set (nlargest n rs) = set ?l" by (simp add: nlargest_def)
  also have "\<dots> = set rs" by auto
  finally show ?thesis .
qed

lemma sorted_nlargest:
  "sorted_wrt (\<lambda>r r'. nomad_score r' = NaN \<or> fge (nomad_score r) (nomad_score r')) (nlargest n rs)"
proof -
  let ?R = "\<lambda>r r'. nomad_score r' = NaN \<or> fge (nomad_score r) (nomad_score r')"
  let ?A = "sort_key neg_score (filter (\<lambda>r. nomad_score r \<noteq> NaN) rs)"
  let ?B = "filter (\<lambda>r. nomad_score r = NaN) rs"
  have "sorted (map neg_score ?A)" by (rule sorted_sort_key)
  then have s: "sorted_wrt (\<lambda>r r'. neg_score r \<le> neg_score r') ?A"
    by (simp add: sorted_wrt_map)
  have A: "sorted_wrt ?R ?A"
  proof (rule sorted_wrt_mono_rel [OF _ s])
    fix r r' assume "r \<in> set ?A" "r' \<in> set ?A" and le: "neg_score r \<le> neg_score r'"
    then obtain a b where "nomad_score r = Fin a" "nomad_score r' = Fin b"
      by (cases "nomad_score r"; cases "nomad_score r'") auto
    with le show "?R r r'" by (simp add: neg_score_def fge_def)
  qed
  have "sorted_wrt (\<lambda>r r'. True) ?B" by simp
  then have B: "sorted_wrt ?R ?B" by (rule sorted_wrt_mono_rel [rotated]) simp
  have "sorted_wrt ?R (?A @ ?B)"
    using A B by (simp add: sorted_wrt_append)
  then show ?thesis unfolding nlargest_def by (rule sorted_wrt_take)
qed

lemma get_recommendations_Inr:
  assumes "get_recommendations self max_budget min_speed visa_free_only top_n region_arg = Inr res"
  shows "\<exists>df. combined_data self = Some df \<and>
           rows res = map round_row (nlargest top_n
             (filter (selected df max_budget min_speed visa_free_only region_arg) (rows df)))"
proof -
  from assms obtain df where df: "combined_data self = Some df"
    by (cases "combined_data self") (simp_all add: get_recommendations_def)
  have f: "filter P (filter Q xs) = filter (\<lambda>x. Q x \<and> P x) xs" for P Q and xs :: "row list"
    by (induction xs) auto
  from assms have "rows res = map round_row (nlargest top_n
             (filter (selected df max_budget min_speed visa_free_only region_arg) (rows df)))"
    by (auto simp: get_recommendations_def df Let_def selected_def f conj_commute conj_left_commute
        split: if_splits option.splits cong: conj_cong)
  with df show ?thesis by blast
qed

lemma round_row_fields [simp]:
  "monthly_cost (round_row r) = round2 (monthly_cost r)"
  "avg_internet_mbps (round_row r) = round2 (avg_internet_mbps r)"
  "nomad_score (round_row r) = round2 (nomad_score r)"
  "visa_free (round_row r) = visa_free r"
  by (simp_all add: round_row_def)

lemma selected_rows:
  assumes "get_recommendations self max_budget min_speed visa_free_only top_n region_arg = Inr res"
    and "r \<in> set (rows res)"
  shows "\<exists>df r0. combined_data self = Some df \<and> r0 \<in> set (rows df) \<and> r = round_row r0
           \<and> selected df max_budget min_speed visa_free_only region_arg r0"
proof -
  from get_recommendations_Inr [OF assms(1)] obtain df where df: "combined_data self = Some df"
    and rs: "rows res = map round_row (nlargest top_n
             (filter (selected df max_budget min_speed visa_free_only region_arg) (rows df)))"
    by blast
  from assms(2) rs obtain r0 where "r = round_row r0"
    and "r0 \<in> set (nlargest top_n (filter (selected df max_budget min_speed visa_free_only region_arg) (rows df)))"
    by auto
  with set_nlargest have "r0 \<in> set (filter (selected df max_budget min_speed visa_free_only region_arg) (rows df))"
    by blast
  with df \<open>r = round_row r0\<close> show ?thesis by auto
qed

text \<open>
  C2. Every returned row is the rounding to two decimals of a row of the
  table whose \<open>monthly_cost\<close> is at most \<open>max_budget\<close>, whose \<open>avg_internet_mbps\<close> is at
  least \<open>min_speed\<close> unless \<open>min_speed\<close> is 0, and whose \<open>visa_free\<close> is true when
  \<open>visa_free_only\<close> is set. So no returned \<open>monthly_cost\<close> exceeds \<open>max_budget\<close> rounded to two
  decimals and, for \<open>min_speed\<close> other than 0, no returned \<open>avg_internet_mbps\<close> is below
  \<open>min_speed\<close> rounded to two decimals. The result has at most \<open>top_n\<close> rows (none for
  \<open>top_n \<le> 0\<close>), ordered by \<open>nomad_score\<close> descending, rows of undefined score last.
\<close>

theorem recommendations_respect_filters:
  assumes "get_recommendations self max_budget min_speed visa_free_only top_n region_arg = Inr res"
  shows "(\<forall>r\<in>set (rows res). \<exists>df r0. combined_data self = Some df \<and> r0 \<in> set (rows df)
             \<and> r = round_row r0
             \<and> fle (monthly_cost r0) max_budget
             \<and> (min_speed \<noteq> Fin 0 \<longrightarrow> fge (avg_internet_mbps r0) min_speed)
             \<and> (visa_free_only \<longrightarrow> visa_free r0))
         \<and> (\<forall>r\<in>set (rows res). fle (monthly_cost r) (round2 max_budget))
         \<and> (min_speed \<noteq> Fin 0 \<longrightarrow> (\<forall>r\<in>set (rows res). fge (avg_internet_mbps r) (round2 min_speed)))
         \<and> (visa_free_only \<longrightarrow> (\<forall>r\<in>set (rows res). visa_free r))
         \<and> length (rows res) \<le> nat top_n
         \<and> sorted_wrt (\<lambda>r r'. nomad_score r' = NaN \<or> fge (nomad_score r) (nomad_score r')) (rows res)"
proof -
  have src: "\<exists>df r0. combined_data self = Some df \<and> r0 \<in> set (rows df)
             \<and> r = round_row r0
             \<and> fle (monthly_cost r0) max_budget
             \<and> (min_speed \<noteq> Fin 0 \<longrightarrow> fge (avg_internet_mbps r0) min_speed)
             \<and> (visa_free_only \<longrightarrow> visa_free r0)" if "r \<in> set (rows res)" for r
    using selected_rows [OF assms that] by (auto simp: selected_def truthy_iff)
  have cost: "fle (monthly_cost r) (round2 max_budget)" if "r \<in> set (rows res)" for r
    using src [OF that] by (auto intro: round2_mono)
  have speed: "fge (avg_internet_mbps r) (round2 min_speed)"
    if "r \<in> set (rows res)" "min_speed \<noteq> Fin 0" for r
    using src [OF that(1)] that(2) by (auto simp: fge_def intro: round2_mono)
  have visa: "visa_free r" if "r \<in> set (rows res)" visa_free_only for r
    using src [OF that(1)] that(2) by auto
  from get_recommendations_Inr [OF assms] obtain df where
    rs: "rows res = map round_row (nlargest top_n
             (filter (selected df max_budget min_speed visa_free_only region_arg) (rows df)))"
    by blast
  have len: "length (rows res) \<le> nat top_n"
    by (simp add: rs length_nlargest)
  have ord: "sorted_wrt (\<lambda>r r'. nomad_score r' = NaN \<or> fge (nomad_score r) (nomad_score r')) (rows res)"
    unfolding rs sorted_wrt_map
    by (rule sorted_wrt_mono_rel [OF _ sorted_nlargest]) (auto simp: fge_def intro: round2_mono)
  from src cost speed visa len ord show ?thesis by blast
qed

theorem recommendations_respect_filters_witness:
  "get_recommendations ex_scored (Fin 5000) (Fin 25) True 100 None = Inr ex_recs
   \<and> map city (rows ex_recs) = [Some ''Zurich'', Some ''New York'']
   \<and> map monthly_cost (rows ex_recs) = [Fin 3000, Fin 4500]
   \<and> map nomad_score (rows ex_recs) = [Fin (6601 / 100), Fin (4022 / 100)]
   \<and> list_all (\<lambda>r. fle (monthly_cost r) (round2 (Fin 5000))) (rows ex_recs)
   \<and> list_all (\<lambda>r. fge (avg_internet_mbps r) (round2 (Fin 25))) (rows ex_recs)
   \<and> list_all visa_free (rows ex_recs)
   \<and> length (rows ex_recs) \<le> nat 100
   \<and> sorted_wrt (\<lambda>r r'. nomad_score r' = NaN \<or> fge (nomad_score r) (nomad_score r')) (rows ex_recs)"
proof -
  have h: "get_recommendations ex_scored (Fin 5000) (Fin 25) True 100 None = Inr ex_recs"
    by code_simp
  have c: "map city (rows ex_recs) = [Some ''Zurich'', Some ''New York'']" by code_simp
  have m: "map monthly_cost (rows ex_recs) = [Fin 3000, Fin 4500]" by code_simp
  have n: "map nomad_score (rows ex_recs) = [Fin (6601 / 100), Fin (4022 / 100)]" by code_simp
  have ms: "Fin 25 \<noteq> Fin 0" by simp
  from recommendations_respect_filters [OF h] ms h c m n show ?thesis
    by (simp add: list_all_iff)
qed

text \<open>
  C2 as stated fails on the rounding: a row of cost 999.996 passes a budget of 999.997
  and is returned with \<open>monthly_cost\<close> 1000.0.
\<close>

theorem recommendations_budget_counterexample:
  "map_sum id (map monthly_cost \<circ> rows)
     (get_recommendations ex_near_budget (Fin (999997 / 1000)) (Fin 25) True 100 None) = Inr [Fin 1000]
   \<and> map monthly_cost (rows (the (combined_data ex_near_budget))) = [Fin (999996 / 1000)]
   \<and> fgt (Fin 1000) (Fin (999997 / 1000))"
  by code_simp

text \<open>
  C10. For \<open>min_speed > 0\<close> no returned row has an undefined \<open>avg_internet_mbps\<close>. For
  \<open>min_speed = 0\<close> the speed filter is skipped: a row that passes the budget, region and
  visa filters is returned whatever its speed, also an undefined one (when \<open>top_n\<close> does
  not cut the result).
\<close>

theorem speed_filter_and_missing_speed:
  assumes "get_recommendations self max_budget min_speed visa_free_only top_n region_arg = Inr res"
    and "combined_data self = Some df"
  shows "(flt (Fin 0) min_speed \<longrightarrow> (\<forall>r\<in>set (rows res). avg_internet_mbps r \<noteq> NaN))
         \<and> (min_speed = Fin 0 \<and> r0 \<in> set (rows df) \<and> fle (monthly_cost r0) max_budget
              \<and> (visa_free_only \<longrightarrow> visa_free r0)
              \<and> (\<forall>target. region_target region_arg = Some target \<and> has_col df ''region''
                     \<longrightarrow> str_casefold (astype_str (region r0)) = target)
              \<and> length (rows df) \<le> nat top_n
            \<longrightarrow> round_row r0 \<in> set (rows res)
                \<and> avg_internet_mbps (round_row r0) = round2 (avg_internet_mbps r0))"
proof (intro conjI impI ballI)
  fix r assume pos: "flt (Fin 0) min_speed" and r: "r \<in> set (rows res)"
  from pos have t: "truthy min_speed" by (cases min_speed) auto
  from selected_rows [OF assms(1) r] obtain d q where "r = round_row q"
    and "selected d max_budget min_speed visa_free_only region_arg q" by blast
  with t have "fge (avg_internet_mbps q) min_speed" by (simp add: selected_def)
  from fge_not_nan [OF this] \<open>r = round_row q\<close> show "avg_internet_mbps r \<noteq> NaN" by simp
next
  assume a: "min_speed = Fin 0 \<and> r0 \<in> set (rows df) \<and> fle (monthly_cost r0) max_budget
              \<and> (visa_free_only \<longrightarrow> visa_free r0)
              \<and> (\<forall>target. region_target region_arg = Some target \<and> has_col df ''region''
                     \<longrightarrow> str_casefold (astype_str (region r0)) = target)
              \<and> length (rows df) \<le> nat top_n"
  let ?sel = "filter (selected df max_budget min_speed visa_free_only region_arg) (rows df)"
  from a have "selected df max_budget min_speed visa_free_only region_arg r0"
    by (auto simp: selected_def split: option.splits)
  with a have "r0 \<in> set ?sel" by simp
  moreover have "length ?sel \<le> nat top_n"
    using a length_filter_le [of "selected df max_budget min_speed visa_free_only region_arg" "rows df"]
    by linarith
  ultimately have "r0 \<in> set (nlargest top_n ?sel)" by (simp add: nlargest_all)
  moreover from get_recommendations_Inr [OF assms(1)] assms(2)
  have "rows res = map round_row (nlargest top_n ?sel)" by auto
  ultimately show "round_row r0 \<in> set (rows res)" by simp
next
  show "avg_internet_mbps (round_row r0) = round2 (avg_internet_mbps r0)" by simp
qed

theorem speed_filter_and_missing_speed_witness:
  "get_recommendations ex_scored (Fin 5000) (Fin 25) True 100 None = Inr ex_recs
   \<and> flt (Fin 0) (Fin 25)
   \<and> list_all (\<lambda>r. avg_internet_mbps r \<noteq> NaN) (rows ex_recs)
   \<and> get_recommendations ex_scored (Fin 5000) (Fin 0) False 100 (Some '' other '') = Inr ex_recs_any_speed
   \<and> map city (rows ex_scored_df) = [Some ''Zurich'', Some ''New York'', Some ''Bangkok'', Some ''Atlantis'']
   \<and> avg_internet_mbps (rows ex_scored_df ! 3) = NaN
   \<and> round_row (rows ex_scored_df ! 3) \<in> set (rows ex_recs_any_speed)
   \<and> map city (rows ex_recs_any_speed) = [Some ''Atlantis'']
   \<and> map avg_internet_mbps (rows ex_recs_any_speed) = [NaN]"
proof -
  have d: "combined_data ex_scored = Some ex_scored_df" by code_simp
  have h1: "get_recommendations ex_scored (Fin 5000) (Fin 25) True 100 None = Inr ex_recs"
    by code_simp
  have p: "flt (Fin 0) (Fin 25)" by simp
  have h2: "get_recommendations ex_scored (Fin 5000) (Fin 0) False 100 (Some '' other '') = Inr ex_recs_any_speed"
    by code_simp
  have c: "map city (rows ex_scored_df) = [Some ''Zurich'', Some ''New York'', Some ''Bangkok'', Some ''Atlantis'']"
    by code_simp
  have n: "avg_internet_mbps (rows ex_scored_df ! 3) = NaN" by code_simp
  have q1: "rows ex_scored_df ! 3 \<in> set (rows ex_scored_df)" by code_simp
  have q2: "fle (monthly_cost (rows ex_scored_df ! 3)) (Fin 5000)" by code_simp
  have q3: "region_target (Some '' other '') = Some ''other''" by code_simp
  have q4: "str_casefold (astype_str (region (rows ex_scored_df ! 3))) = ''other''" by code_simp
  have q5: "length (rows ex_scored_df) \<le> nat 100" by code_simp
  have c2: "map city (rows ex_recs_any_speed) = [Some ''Atlantis'']" by code_simp
  have a2: "map avg_internet_mbps (rows ex_recs_any_speed) = [NaN]" by code_simp
  from speed_filter_and_missing_speed [OF h1 d] p
  have A: "list_all (\<lambda>r. avg_internet_mbps r \<noteq> NaN) (rows ex_recs)"
    by (simp add: list_all_iff)
  from speed_filter_and_missing_speed [OF h2 d, of "rows ex_scored_df ! 3"] q1 q2 q3 q4 q5
  have B: "round_row (rows ex_scored_df ! 3) \<in> set (rows ex_recs_any_speed)" by simp
  from A B h1 p h2 c n c2 a2 show ?thesis by blast
qed

end
